theory Spec2Isabelle
  imports Complex_Main
begin

section \<open>The avulsion stratigraphic-modelling notebook\<close>

text \<open>
  The program is the Jupyter notebook \<^verbatim>\<open>notebooks/avulsion_stratigraphic_modeling.ipynb\<close>;
  source lines are lines of that file. Its code cells are run once, from top to bottom.
  \<^item> Python's unbounded integers are \<^typ>\<open>int\<close>, and every exception the notebook can raise
    is a value of \<open>py_error\<close>.
  \<^item> Elevations are floating-point values with infinities and nan (type \<open>fl\<close>); the
    rounding of an exact result to a float is a parameter. The horizontal coordinates, on
    which the notebook only translates by the UTM offsets, and the scalar parameters are
    idealised as \<^typ>\<open>real\<close>.
  \<^item> The computations of the external libraries are parameters of the model (record
    \<open>libs\<close>). Containers of those libraries whose content the notebook reads or builds
    (channel, channel belt, line string, data frame, arrays) are modelled as data.
  \<^item> The import cells (source lines 41-50 and 567) and the cells that hold comments only
    compute nothing and have no counterpart here.
\<close>

subsection \<open>Exceptions\<close>

datatype py_error =
    UnboundLocalError
  | ZeroDivisionError
  | OverflowError
  | IndexError
  | ValueError
  | TypeError
  | NotImplementedError
  | DataSourceError string
  | GEOSException
  | LibraryError string

subsection \<open>Floating-point numbers\<close>

text \<open>
  A float is a finite value, an infinity or nan. The comparison \<open><\<close> of floats is false
  whenever one side is nan; \<open><=\<close> likewise.
\<close>

datatype fl = Fin real | PInf | NInf | NaN

fun fl_lt :: "fl \<Rightarrow> fl \<Rightarrow> bool" where
  "fl_lt (Fin a) (Fin b) = (a < b)"
| "fl_lt (Fin a) PInf = True"
| "fl_lt NInf (Fin b) = True"
| "fl_lt NInf PInf = True"
| "fl_lt _ _ = False"

definition fl_le :: "fl \<Rightarrow> fl \<Rightarrow> bool" where
  "fl_le a b \<longleftrightarrow> a \<noteq> NaN \<and> b \<noteq> NaN \<and> \<not> fl_lt b a"

text \<open>
  An arithmetic operation on finite operands yields the exact result, rounded by \<open>rnd\<close>
  (which may round to an infinity: overflow). On other operands it follows IEEE 754: nan
  is contagious, \<open>inf - inf\<close> and \<open>0 * inf\<close> are nan. The integer operand of the mixed
  operations is converted to a float first, which is exact for every integer below
  \<open>2^53\<close>, so for every index and length of a list. Signed zeros are not distinguished.
\<close>

fun fl_sub :: "(real \<Rightarrow> fl) \<Rightarrow> fl \<Rightarrow> fl \<Rightarrow> fl" where
  "fl_sub rnd (Fin a) (Fin b) = rnd (a - b)"
| "fl_sub rnd NaN _ = NaN"
| "fl_sub rnd _ NaN = NaN"
| "fl_sub rnd PInf PInf = NaN"
| "fl_sub rnd NInf NInf = NaN"
| "fl_sub rnd PInf _ = PInf"
| "fl_sub rnd NInf _ = NInf"
| "fl_sub rnd (Fin a) PInf = NInf"
| "fl_sub rnd (Fin a) NInf = PInf"

fun fl_int_mul :: "(real \<Rightarrow> fl) \<Rightarrow> int \<Rightarrow> fl \<Rightarrow> fl" where
  "fl_int_mul rnd k (Fin b) = rnd (of_int k * b)"
| "fl_int_mul rnd k NaN = NaN"
| "fl_int_mul rnd k PInf = (if k = 0 then NaN else if 0 < k then PInf else NInf)"
| "fl_int_mul rnd k NInf = (if k = 0 then NaN else if 0 < k then NInf else PInf)"

text \<open>
  Division of a float by an integer as numpy's \<open>float64\<close> does it: a zero divisor gives
  an infinity or nan (with a warning) and no exception.
\<close>

fun fl_div_int :: "(real \<Rightarrow> fl) \<Rightarrow> fl \<Rightarrow> int \<Rightarrow> fl" where
  "fl_div_int rnd (Fin a) k =
     (if k = 0 then (if a = 0 then NaN else if 0 < a then PInf else NInf)
      else rnd (a / of_int k))"
| "fl_div_int rnd NaN k = NaN"
| "fl_div_int rnd PInf k = (if 0 \<le> k then PInf else NInf)"
| "fl_div_int rnd NInf k = (if 0 \<le> k then NInf else PInf)"

text \<open>
  The arithmetic that \<open>generate_z_coordinates_with_constant\<close> applies to its bounds
  depends on their Python type, so it is a record of the four operations used: \<open>bound -
  bound\<close>, \<open>bound / int\<close>, \<open>int * bound\<close> and \<open>bound < bound\<close>. The first three may raise.
  With numpy \<open>float64\<close> bounds no operation raises; with Python \<open>float\<close> bounds a zero
  divisor raises \<open>ZeroDivisionError\<close>.
\<close>

record 'a arith =
  a_sub :: "'a \<Rightarrow> 'a \<Rightarrow> py_error + 'a"
  a_div_int :: "'a \<Rightarrow> int \<Rightarrow> py_error + 'a"
  a_int_mul :: "int \<Rightarrow> 'a \<Rightarrow> py_error + 'a"
  a_lt :: "'a \<Rightarrow> 'a \<Rightarrow> bool"

definition numpy_float64 :: "(real \<Rightarrow> fl) \<Rightarrow> fl arith" where
  "numpy_float64 rnd =
     \<lparr>a_sub = (\<lambda>a b. Inr (fl_sub rnd a b)),
      a_div_int = (\<lambda>a k. Inr (fl_div_int rnd a k)),
      a_int_mul = (\<lambda>k a. Inr (fl_int_mul rnd k a)),
      a_lt = fl_lt\<rparr>"

definition python_float :: "(real \<Rightarrow> fl) \<Rightarrow> fl arith" where
  "python_float rnd =
     \<lparr>a_sub = (\<lambda>a b. Inr (fl_sub rnd a b)),
      a_div_int = (\<lambda>a k. if k = 0 then Inl ZeroDivisionError else Inr (fl_div_int rnd a k)),
      a_int_mul = (\<lambda>k a. Inr (fl_int_mul rnd k a)),
      a_lt = fl_lt\<rparr>"

text \<open>
  Python's \<open>min(a, b)\<close> returns \<open>a\<close> unless \<open>b < a\<close>, and \<open>max(a, b)\<close> returns \<open>a\<close> unless
  \<open>b > a\<close>, which on numbers is \<open>a < b\<close>.
\<close>

definition py_min2 :: "'a arith \<Rightarrow> 'a \<Rightarrow> 'a \<Rightarrow> 'a" where
  "py_min2 A a b = (if a_lt A b a then b else a)"

definition py_max2 :: "'a arith \<Rightarrow> 'a \<Rightarrow> 'a \<Rightarrow> 'a" where
  "py_max2 A a b = (if a_lt A a b then b else a)"

subsection \<open>The elevation profile of the post-avulsion centerline (source lines 304-319)\<close>

text \<open>
  \<^verbatim>\<open>
  def generate_z_coordinates_with_constant(x_coordinates, y_coordinates,
                                           constant_values_count, lower_bound, upper_bound):
      z_coordinates = []
      z_coordinates.extend([upper_bound] * min(constant_values_count, len(x_coordinates)))
      for i in range(constant_values_count, len(x_coordinates)):
          Z = upper_bound - (i - constant_values_count) * ((upper_bound - lower_bound)
                / (len(x_coordinates) - constant_values_count - 1))
          Z = max(min(Z, upper_bound), lower_bound)
          z_coordinates.append(Z)
          z_coords = np.asarray(z_coordinates)
      return z_coords
  \<close>
  The divisor of the ramp is \<open>len(x_coordinates) - constant_values_count - 1\<close>. The
  operations of the ramp expression are evaluated in Python's order: the inner
  subtraction, the division, the multiplication, the outer subtraction; the first one that
  raises ends the call. The local \<open>z_coords\<close> is bound only inside the loop body, so it is
  carried as an option: \<open>None\<close> is the unbound local. Only the length of \<open>x_coordinates\<close>
  is used, and \<open>y_coordinates\<close> not at all.
\<close>

definition ramp_divisor :: "int \<Rightarrow> int \<Rightarrow> int" where
  "ramp_divisor n constant_values_count = n - constant_values_count - 1"

definition ramp_Z :: "'a arith \<Rightarrow> int \<Rightarrow> int \<Rightarrow> 'a \<Rightarrow> 'a \<Rightarrow> int \<Rightarrow> py_error + 'a" where
  "ramp_Z A n constant_values_count lower_bound upper_bound i =
     (case a_sub A upper_bound lower_bound of Inl e \<Rightarrow> Inl e | Inr d \<Rightarrow>
     (case a_div_int A d (ramp_divisor n constant_values_count) of Inl e \<Rightarrow> Inl e | Inr q \<Rightarrow>
     (case a_int_mul A (i - constant_values_count) q of Inl e \<Rightarrow> Inl e | Inr p \<Rightarrow>
     (case a_sub A upper_bound p of Inl e \<Rightarrow> Inl e | Inr Z \<Rightarrow>
        Inr (py_max2 A (py_min2 A Z upper_bound) lower_bound)))))"

function z_loop ::
  "'a arith \<Rightarrow> int \<Rightarrow> int \<Rightarrow> int \<Rightarrow> 'a \<Rightarrow> 'a \<Rightarrow> 'a list \<Rightarrow> 'a list option
     \<Rightarrow> py_error + 'a list option" where
  "z_loop A i n constant_values_count lower_bound upper_bound z_coordinates z_coords =
     (if i < n then
        (case ramp_Z A n constant_values_count lower_bound upper_bound i of
           Inl e \<Rightarrow> Inl e
         | Inr Z \<Rightarrow>
             z_loop A (i + 1) n constant_values_count lower_bound upper_bound
               (z_coordinates @ [Z]) (Some (z_coordinates @ [Z])))
      else Inr z_coords)"
  by pat_completeness auto
termination
  by (relation "measure (\<lambda>(A, i, n, c, lo, up, zs, zc). nat (n - i))") auto

declare z_loop.simps [simp del]

definition generate_z_coordinates_with_constant ::
  "'a arith \<Rightarrow> 'b list \<Rightarrow> 'c list \<Rightarrow> int \<Rightarrow> 'a \<Rightarrow> 'a \<Rightarrow> py_error + 'a list" where
  "generate_z_coordinates_with_constant A x_coordinates y_coordinates constant_values_count
       lower_bound upper_bound =
     (let n = int (length x_coordinates);
          z_coordinates = replicate (nat (min constant_values_count n)) upper_bound
      in case z_loop A constant_values_count n constant_values_count lower_bound upper_bound
                z_coordinates None of
           Inl e \<Rightarrow> Inl e
         | Inr None \<Rightarrow> Inl UnboundLocalError
         | Inr (Some z_coords) \<Rightarrow> Inr z_coords)"


subsection \<open>Data owned by the external libraries\<close>

text \<open>
  A one-dimensional numpy array of horizontal coordinates or parameters is a list of
  reals, an array of elevations a list of floats. A shapely geometry is a \<open>LineString\<close>
  with its coordinate pairs, a \<open>Point\<close>, or some other kind of geometry (polygon,
  multi-part geometry, collection), whose \<open>.xy\<close> raises \<open>NotImplementedError\<close>. A
  geopandas \<open>GeoDataFrame\<close> is its geometry column, and the shapefiles on disk are a map
  from path to frame.
\<close>

type_synonym array = "real list"

type_synonym farray = "fl list"

datatype geometry = LineString "(real \<times> real) list" | Point "real \<times> real" | OtherGeometry

type_synonym geodataframe = "geometry list"

text \<open>
  \<open>meanderpy.Channel\<close> stores \<open>x, y, z, W, D\<close>; \<open>meanderpy.ChannelBelt\<close> stores
  \<open>channels, cutoffs, cl_times, cutoff_times\<close>. The fields carry a prefix here because
  \<open>x\<close>, \<open>y\<close>, \<open>z\<close>, \<open>W\<close> and \<open>D\<close> are also names of the notebook's globals.
\<close>

record channel =
  ch_x :: array
  ch_y :: array
  ch_z :: farray
  ch_W :: real
  ch_D :: real

text \<open>A cutoff object of meanderpy; the notebook never looks inside one.\<close>

typedecl cutoff

record channel_belt =
  channels :: "channel list"
  cutoffs :: "cutoff list"
  cl_times :: "real list"
  cutoff_times :: "real list"

text \<open>
  A three-dimensional numpy array is its shape and its elements in row-major order. The
  object returned by \<open>mp.build_3d_model\<close> is read by the notebook through \<open>.strat\<close>,
  \<open>.topo\<close> and \<open>.facies\<close> only.
\<close>

record ndarray3 =
  shape :: "nat \<times> nat \<times> nat"
  flat :: "real list"

record channel_belt_3d =
  strat :: ndarray3
  topo :: ndarray3
  facies :: array

text \<open>
  A Python call hands its callee a list of positional arguments and a dictionary of keyword
  arguments. The scalar, string, sequence and array arguments of the notebook's calls are
  values of \<open>pyval\<close>.
\<close>

datatype pyval =
    PyNone
  | PyBool bool
  | PyInt int
  | PyFloat real
  | PyStr string
  | PyArray "real list"
  | PyFloats "fl list"
  | PyNd ndarray3
  | PyList "pyval list"
  | PyTuple "pyval list"

type_synonym kwargs = "(string \<times> pyval) list"

subsection \<open>numpy, builtins and constructors used by the notebook\<close>

definition py_index :: "'a list \<Rightarrow> int \<Rightarrow> py_error + 'a" where
  "py_index xs i =
     (if 0 \<le> i \<and> i < int (length xs) then Inr (xs ! nat i)
      else if i < 0 \<and> - int (length xs) \<le> i then Inr (xs ! nat (int (length xs) + i))
      else Inl IndexError)"

definition np_ones_like :: "array \<Rightarrow> farray" where
  "np_ones_like a = map (\<lambda>_. Fin 1) a"

definition np_ones :: "int \<Rightarrow> py_error + array" where
  "np_ones n = (if n < 0 then Inl ValueError else Inr (replicate (nat n) 1))"

definition np_flip :: "array \<Rightarrow> array" where
  "np_flip a = rev a"

definition np_min :: "array \<Rightarrow> py_error + real" where
  "np_min a = (if a = [] then Inl ValueError else Inr (Min (set a)))"

definition np_max :: "array \<Rightarrow> py_error + real" where
  "np_max a = (if a = [] then Inl ValueError else Inr (Max (set a)))"

text \<open>
  \<open>np.min\<close> and \<open>np.max\<close> of an array of floats: nan if the array holds a nan, else the
  least and the greatest element.
\<close>

definition np_min_fl :: "farray \<Rightarrow> py_error + fl" where
  "np_min_fl a =
     (if a = [] then Inl ValueError
      else if NaN \<in> set a then Inr NaN
      else Inr (fold (\<lambda>v m. if fl_lt v m then v else m) (tl a) (hd a)))"

definition np_max_fl :: "farray \<Rightarrow> py_error + fl" where
  "np_max_fl a =
     (if a = [] then Inl ValueError
      else if NaN \<in> set a then Inr NaN
      else Inr (fold (\<lambda>v m. if fl_lt m v then v else m) (tl a) (hd a)))"

text \<open>
  \<open>geometry.xy\<close> of shapely: the separate x and y coordinate arrays of a line or of a
  point.
\<close>

fun xy :: "geometry \<Rightarrow> py_error + (array \<times> array)" where
  "xy (LineString coords) = Inr (map fst coords, map snd coords)"
| "xy (Point (a, b)) = Inr ([a], [b])"
| "xy OtherGeometry = Inl NotImplementedError"

text \<open>
  \<open>mp.Channel(x, y, z, W, D)\<close>: the constructor stores its five positional arguments.\<close>

fun py_number :: "pyval \<Rightarrow> real option" where
  "py_number (PyInt i) = Some (of_int i)"
| "py_number (PyFloat r) = Some r"
| "py_number _ = None"

fun mp_Channel :: "pyval list \<Rightarrow> kwargs \<Rightarrow> py_error + channel" where
  "mp_Channel [PyArray x, PyArray y, PyFloats z, w, d] [] =
     (case (py_number w, py_number d) of
        (Some w', Some d') \<Rightarrow> Inr \<lparr>ch_x = x, ch_y = y, ch_z = z, ch_W = w', ch_D = d'\<rparr>
      | _ \<Rightarrow> Inl TypeError)"
| "mp_Channel _ _ = Inl TypeError"

subsection \<open>The external computations\<close>

text \<open>
  The computations of meanderpy, scipy, matplotlib, mayavi and stratigraph are not part of
  the repository. They are parameters of the model: each takes the positional and keyword
  arguments of the call (and the object the call is made on or about) and returns a value
  or raises. Four more parameters say what the notebook cannot know about numpy,
  geopandas and shapely: how \<open>float64\<close> arithmetic rounds, which exception
  \<open>gpd.read_file\<close> raises for a path that holds no file (\<open>DataSourceError\<close> with pyogrio),
  and for which arguments the constructor \<open>LineString\<close> (a line of one point, with
  \<open>GEOSException\<close>) and \<open>GeoDataFrame.to_file\<close> raise, and what.
\<close>

record libs =
  np_round :: "real \<Rightarrow> fl"
  gpd_read_error :: "string \<Rightarrow> py_error"
  LineString_error :: "(real \<times> real) list \<Rightarrow> py_error option"
  to_file_error :: "geodataframe \<Rightarrow> string \<Rightarrow> py_error option"
  mp_resample_centerline :: "pyval list \<Rightarrow> kwargs \<Rightarrow> py_error + (array \<times> array \<times> farray)"
  sp_savgol_filter :: "pyval list \<Rightarrow> kwargs \<Rightarrow> py_error + array"
  chb_migrate :: "channel_belt \<Rightarrow> pyval list \<Rightarrow> kwargs \<Rightarrow> py_error + channel_belt"
  chb_plot :: "channel_belt \<Rightarrow> pyval list \<Rightarrow> kwargs \<Rightarrow> py_error + unit"
  mp_build_3d_model :: "channel_belt \<Rightarrow> pyval list \<Rightarrow> kwargs \<Rightarrow> py_error + channel_belt_3d"
  plt_figure :: "channel_belt \<Rightarrow> pyval list \<Rightarrow> py_error + unit"
  mlab_figure :: "pyval list \<Rightarrow> kwargs \<Rightarrow> py_error + unit"
  mlab_view :: "pyval list \<Rightarrow> kwargs \<Rightarrow> py_error + unit"
  sg_create_block_diagram :: "pyval list \<Rightarrow> kwargs \<Rightarrow> py_error + unit"
  sg_create_random_cookie :: "pyval list \<Rightarrow> kwargs \<Rightarrow> py_error + unit"

subsection \<open>The session state\<close>

text \<open>
  The library calls a run has completed, in order. \<open>Gpd_read_file\<close> and \<open>Gdf_to_file\<close>
  carry the path.
\<close>

datatype lib_call =
    Gpd_read_file string
  | Mp_resample_centerline
  | Sp_savgol_filter
  | Mp_Channel
  | Mp_ChannelBelt
  | Chb_migrate
  | Shapely_LineString
  | Gpd_GeoDataFrame
  | Gdf_to_file string
  | Mp_build_3d_model
  | Plt_figure
  | Chb_plot
  | Mlab_figure
  | Mlab_view
  | Sg_create_block_diagram
  | Sg_create_random_cookie

text \<open>
  The state of a session: the shapefiles on disk, the completed library calls, the lines
  printed, and the notebook's global variables that one cell assigns and a later cell reads
  (\<open>v_x\<close> is the global \<open>x\<close>, and so on).
\<close>

record nb =
  files :: "string \<rightharpoonup> geodataframe"
  trace :: "lib_call list"
  printed :: "(string \<times> real) list"
  v_x :: array
  v_y :: array
  v_z :: farray
  v_chb :: channel_belt
  v_min_x :: real
  v_max_x :: real
  v_min_y :: real
  v_max_y :: real
  v_chb_3d_preAvulsion :: channel_belt_3d
  v_chb_3d_postAvulsion :: channel_belt_3d
  v_facies3d :: ndarray3
  v_bottom :: real
  v_xcoords :: "real list"
  v_ycoords :: "real list"

text \<open>
  A statement sequence either raises or yields a value and the next state. There is no
  handler: the notebook has no \<open>try\<close>.
\<close>

type_synonym 'a stmt = "nb \<Rightarrow> py_error + ('a \<times> nb)"

definition ret :: "'a \<Rightarrow> 'a stmt" where
  "ret v s = Inr (v, s)"

definition andthen :: "'a stmt \<Rightarrow> ('a \<Rightarrow> 'b stmt) \<Rightarrow> 'b stmt" where
  "andthen m f s = (case m s of Inl e \<Rightarrow> Inl e | Inr (v, s') \<Rightarrow> f v s')"

definition lift :: "py_error + 'a \<Rightarrow> 'a stmt" where
  "lift r s = (case r of Inl e \<Rightarrow> Inl e | Inr v \<Rightarrow> Inr (v, s))"

definition gets :: "(nb \<Rightarrow> 'a) \<Rightarrow> 'a stmt" where
  "gets f s = Inr (f s, s)"

definition modify :: "(nb \<Rightarrow> nb) \<Rightarrow> unit stmt" where
  "modify f s = Inr ((), f s)"

definition call :: "lib_call \<Rightarrow> py_error + 'a \<Rightarrow> 'a stmt" where
  "call c r s = (case r of Inl e \<Rightarrow> Inl e | Inr v \<Rightarrow> Inr (v, s\<lparr>trace := trace s @ [c]\<rparr>))"

text \<open>
  \<open>gpd.read_file(path)\<close> and \<open>GeoDataFrame.to_file(path)\<close> on the files of the state: reading
  a path that holds no file raises, writing replaces the file at the path unless the
  library raises. \<open>LineString(coordinates)\<close> builds the line unless the library raises.
\<close>

definition gpd_read_file :: "libs \<Rightarrow> string \<Rightarrow> geodataframe stmt" where
  "gpd_read_file L path s =
     (case files s path of
        None \<Rightarrow> Inl (gpd_read_error L path)
      | Some gdf \<Rightarrow> Inr (gdf, s\<lparr>trace := trace s @ [Gpd_read_file path]\<rparr>))"

definition gdf_to_file :: "libs \<Rightarrow> geodataframe \<Rightarrow> string \<Rightarrow> unit stmt" where
  "gdf_to_file L gdf path s =
     (case to_file_error L gdf path of
        Some e \<Rightarrow> Inl e
      | None \<Rightarrow>
          Inr ((), s\<lparr>files := (files s)(path \<mapsto> gdf),
                      trace := trace s @ [Gdf_to_file path]\<rparr>))"

definition shapely_LineString :: "libs \<Rightarrow> (real \<times> real) list \<Rightarrow> py_error + geometry" where
  "shapely_LineString L coords =
     (case LineString_error L coords of Some e \<Rightarrow> Inl e | None \<Rightarrow> Inr (LineString coords))"


subsection \<open>Model parameters (source lines 108-125) and camera settings (576-579)\<close>

definition W :: int where "W = 50"
definition D :: real where "D = 2.0"
definition pad :: int where "pad = 10"
definition deltas :: real where "deltas = 5.0"
definition nit :: int where "nit = 2000"
definition depths :: array where "depths = map (\<lambda>v. D * v) (replicate (nat nit) 1)"
definition Cfs :: array where "Cfs = map (\<lambda>v. 0.01 * v) (replicate (nat nit) 1)"
definition crdist :: real where "crdist = 2.0 * of_int W"
definition kl :: real where "kl = 2 / (365 * 24 * 60 * 60.0)"
definition kv :: real where "kv = 1.0 / 10 ^ 12"
definition dt :: real where "dt = 2 * 0.05 * 365 * 24 * 60 * 60.0"
definition dens :: int where "dens = 1000"
definition saved_ts :: int where "saved_ts = 200"
definition Sl :: real where "Sl = 0.0008"
definition t1 :: int where "t1 = 1"
definition t2 :: int where "t2 = 1"
definition t3 :: int where "t3 = 1"
definition aggr_factor :: real where "aggr_factor = 6.34196 / 10 ^ 10"

definition azimuth :: real where "azimuth = - 151.0187062044975"
definition elevation :: real where "elevation = 64.25212774391869"
definition distance :: real where "distance = 3043.97657018737"
definition focalpoint :: array where
  "focalpoint = [927.38717861, 1166.20012347, - 222.73301967]"

definition centerline_dir :: string where
  "centerline_dir = ''../modeling/centerlines/''"

subsection \<open>The pre-avulsion (T1) pass\<close>

text \<open>
  Source lines 66-92: read the T1 shapefile, take its first geometry, resample, flip,
  subtract the UTM offsets and smooth.
\<close>

definition load_t1_centerline :: "libs \<Rightarrow> unit stmt" where
  "load_t1_centerline L =
     andthen (gpd_read_file L (centerline_dir @ ''t1_initial_centerline.shp'')) (\<lambda>t1_shp.
     andthen (lift (py_index t1_shp 0)) (\<lambda>line.
     andthen (lift (xy line)) (\<lambda>(x, y).
     let z = np_ones_like x in
     andthen (call Mp_resample_centerline
       (mp_resample_centerline L [PyArray x, PyArray y, PyFloats z, PyFloat 5.0] []))
       (\<lambda>(x, y, z).
     let x = np_flip x;
         y = np_flip y;
         x = map (\<lambda>v. v - 560000) x;
         y = map (\<lambda>v. v - 4300000) y;
         window_size = 11;
         order = 2 in
     andthen (call Sp_savgol_filter
       (sp_savgol_filter L [PyArray x, PyInt window_size, PyInt order] [])) (\<lambda>x_smooth.
     andthen (call Sp_savgol_filter
       (sp_savgol_filter L [PyArray y, PyInt window_size, PyInt order] [])) (\<lambda>y_smooth.
     modify (\<lambda>s. s\<lparr>v_x := x_smooth, v_y := y_smooth, v_z := z\<rparr>)))))))"

text \<open>Source lines 141-145: the first channel and the channel belt.\<close>

definition Channel_args :: "array \<Rightarrow> array \<Rightarrow> farray \<Rightarrow> pyval list" where
  "Channel_args x y z = [PyArray x, PyArray y, PyFloats z, PyInt W, PyFloat D]"

definition build_channel_belt :: "unit stmt" where
  "build_channel_belt =
     andthen (gets v_x) (\<lambda>x.
     andthen (gets v_y) (\<lambda>y.
     andthen (gets v_z) (\<lambda>z.
     andthen (call Mp_Channel (mp_Channel (Channel_args x y z) [])) (\<lambda>ch.
     andthen (call Mp_ChannelBelt
       (Inr \<lparr>channels = [ch], cutoffs = [], cl_times = [0.0], cutoff_times = []\<rparr>)) (\<lambda>chb.
     modify (\<lambda>s. s\<lparr>v_chb := chb\<rparr>))))))"

text \<open>
  Source line 162 (and again 411):
  \<^verbatim>\<open>chb.migrate(nit,saved_ts,deltas,pad,crdist,depths,Cfs,kl,kv,dt,dens,t1,t2,t3,aggr_factor)\<close>.
  The method updates the belt in place; the model returns the updated belt.
\<close>

definition migrate_args :: "pyval list" where
  "migrate_args =
     [PyInt nit, PyInt saved_ts, PyFloat deltas, PyInt pad, PyFloat crdist, PyArray depths,
      PyArray Cfs, PyFloat kl, PyFloat kv, PyFloat dt, PyInt dens, PyInt t1, PyInt t2,
      PyInt t3, PyFloat aggr_factor]"

definition migrate_t1 :: "libs \<Rightarrow> unit stmt" where
  "migrate_t1 L =
     andthen (gets v_chb) (\<lambda>chb.
     andthen (call Chb_migrate (chb_migrate L chb migrate_args [])) (\<lambda>chb.
     modify (\<lambda>s. s\<lparr>v_chb := chb\<rparr>)))"

text \<open>
  Source lines 178-192: the last channel of the belt, with the UTM offsets added, written
  as one \<open>LineString\<close> to \<open>t1_final_centerline.shp\<close>.
\<close>

definition export_t1 :: "libs \<Rightarrow> unit stmt" where
  "export_t1 L =
     andthen (gets v_chb) (\<lambda>chb.
     andthen (lift (py_index (channels chb) (- 1))) (\<lambda>c.
     let t1_final_x = map (\<lambda>v. v + 560000) (ch_x c) in
     andthen (lift (py_index (channels chb) (- 1))) (\<lambda>c.
     let t1_final_y = map (\<lambda>v. v + 4300000) (ch_y c) in
     andthen (call Shapely_LineString (shapely_LineString L (zip t1_final_x t1_final_y)))
       (\<lambda>line_geometry.
     andthen (call Gpd_GeoDataFrame (Inr [line_geometry])) (\<lambda>gdf_result.
     let output_shapefile_t1 = centerline_dir @ ''t1_final_centerline.shp'' in
     gdf_to_file L gdf_result output_shapefile_t1)))))"

text \<open>Source lines 208-212: the model domain.\<close>

definition model_domain :: "unit stmt" where
  "model_domain =
     modify (\<lambda>s. s\<lparr>v_min_x := 2789.150971221104, v_max_x := 4802.228898997582,
                     v_min_y := 2545.097408532824, v_max_y := 4342.6693798509295\<rparr>)"

text \<open>
  Source lines 221-231 (and again 541-551): the call of \<open>mp.build_3d_model\<close>. Its first
  two arguments (\<open>chb\<close>, \<open>'fluvial'\<close>) are positional, all others are keyword arguments. Of
  the seven values it returns, only the first is read later.
\<close>

definition build_3d_model_kwargs ::
  "array \<Rightarrow> int \<Rightarrow> real \<Rightarrow> real \<Rightarrow> real \<Rightarrow> real \<Rightarrow> real \<Rightarrow> real \<Rightarrow> real \<Rightarrow> real \<Rightarrow> real \<Rightarrow> kwargs"
  where
  "build_3d_model_kwargs h_mud dx starttime endtime diff_scale v_fine v_coarse
       min_x max_x min_y max_y =
     [(''h_mud'', PyArray h_mud), (''h'', PyFloat 4.0), (''w'', PyInt W),
      (''bth'', PyFloat 0.0), (''dcr'', PyFloat 10.0), (''dx'', PyInt dx),
      (''delta_s'', PyFloat deltas), (''dt'', PyFloat dt),
      (''starttime'', PyFloat starttime), (''endtime'', PyFloat endtime),
      (''diff_scale'', PyFloat diff_scale), (''v_fine'', PyFloat v_fine),
      (''v_coarse'', PyFloat v_coarse),
      (''xmin'', PyFloat (min_x - 100)), (''xmax'', PyFloat (max_x + 100)),
      (''ymin'', PyFloat (min_y - 100)), (''ymax'', PyFloat (max_y + 100))]"

definition build_3d :: "libs \<Rightarrow> channel_belt_3d stmt" where
  "build_3d L =
     andthen (gets v_chb) (\<lambda>chb.
     andthen (lift (np_ones (int (length (channels chb))))) (\<lambda>ones.
     let h_mud = map (\<lambda>v. 1.0 * v) ones;
         dx = 1;
         diff_scale = 2.0 * of_int W / of_int dx;
         v_coarse = 10.0;
         v_fine = 0.0 in
     andthen (lift (py_index (cl_times chb) 0)) (\<lambda>starttime.
     andthen (lift (py_index (cl_times chb) (- 1))) (\<lambda>endtime.
     andthen (gets v_min_x) (\<lambda>min_x.
     andthen (gets v_max_x) (\<lambda>max_x.
     andthen (gets v_min_y) (\<lambda>min_y.
     andthen (gets v_max_y) (\<lambda>max_y.
     call Mp_build_3d_model
       (mp_build_3d_model L chb [PyStr ''fluvial'']
          (build_3d_model_kwargs h_mud dx starttime endtime diff_scale v_fine v_coarse
             min_x max_x min_y max_y))))))))))"

definition build_3d_pre :: "libs \<Rightarrow> unit stmt" where
  "build_3d_pre L =
     andthen (build_3d L) (\<lambda>m. modify (\<lambda>s. s\<lparr>v_chb_3d_preAvulsion := m\<rparr>))"


subsection \<open>The post-avulsion (T2) pass\<close>

text \<open>
  Source lines 248-266: read the T2 shapefile, take its first geometry, resample, subtract
  the UTM offsets and smooth (no flip, window 31).
\<close>

definition load_t2_centerline :: "libs \<Rightarrow> unit stmt" where
  "load_t2_centerline L =
     andthen (gpd_read_file L (centerline_dir @ ''t2_initial_centerline.shp'')) (\<lambda>t2_shp.
     andthen (lift (py_index t2_shp 0)) (\<lambda>line.
     andthen (lift (xy line)) (\<lambda>(x, y).
     let z = np_ones_like x in
     andthen (call Mp_resample_centerline
       (mp_resample_centerline L [PyArray x, PyArray y, PyFloats z, PyFloat 5.0] []))
       (\<lambda>(x, y, z).
     let x = map (\<lambda>v. v - 560000) x;
         y = map (\<lambda>v. v - 4300000) y;
         window_size = 31;
         order = 2 in
     andthen (call Sp_savgol_filter
       (sp_savgol_filter L [PyArray x, PyInt window_size, PyInt order] [])) (\<lambda>x_smooth.
     andthen (call Sp_savgol_filter
       (sp_savgol_filter L [PyArray y, PyInt window_size, PyInt order] [])) (\<lambda>y_smooth.
     modify (\<lambda>s. s\<lparr>v_x := x_smooth, v_y := y_smooth, v_z := z\<rparr>)))))))"

text \<open>
  Source lines 283-295, 353-376 and 458-493 draw matplotlib figures for inspection. Each is
  one display effect here: the figure receives the belt and the arrays the cell reads, and
  the cell's own loops, which only choose the nodes to label, are part of that effect. The
  belt entries the cell indexes are read first, so that a missing entry raises.
\<close>

definition plot_t2_nodes :: "libs \<Rightarrow> unit stmt" where
  "plot_t2_nodes L =
     andthen (gets v_chb) (\<lambda>chb.
     andthen (lift (py_index (channels chb) 0)) (\<lambda>_.
     andthen (lift (py_index (channels chb) (- 1))) (\<lambda>_.
     andthen (gets v_x) (\<lambda>x.
     andthen (gets v_y) (\<lambda>y.
     call Plt_figure (plt_figure L chb [PyArray x, PyArray y]))))))"

text \<open>
  Source lines 336-337: \<open>N = 225\<close> and the elevations of the T2 centerline, from the lowest
  elevation of the first channel and the highest elevation of the last. The two bounds
  are numpy \<open>float64\<close> scalars, so the arithmetic of the function is numpy's.
\<close>

definition N :: int where "N = 225"

definition set_t2_elevation :: "libs \<Rightarrow> unit stmt" where
  "set_t2_elevation L =
     andthen (gets v_x) (\<lambda>x.
     andthen (gets v_y) (\<lambda>y.
     andthen (gets v_chb) (\<lambda>chb.
     andthen (lift (py_index (channels chb) 0)) (\<lambda>first_ch.
     andthen (lift (np_min_fl (ch_z first_ch))) (\<lambda>lower_bound.
     andthen (lift (py_index (channels chb) (- 1))) (\<lambda>last_ch.
     andthen (lift (np_max_fl (ch_z last_ch))) (\<lambda>upper_bound.
     andthen (lift (generate_z_coordinates_with_constant (numpy_float64 (np_round L))
                      x y N lower_bound upper_bound))
       (\<lambda>z.
     modify (\<lambda>s. s\<lparr>v_z := z\<rparr>)))))))))"

definition plot_centerlines :: "libs \<Rightarrow> unit stmt" where
  "plot_centerlines L =
     andthen (gets v_chb) (\<lambda>chb.
     andthen (lift (py_index (channels chb) 0)) (\<lambda>_.
     andthen (lift (py_index (channels chb) (- 1))) (\<lambda>_.
     andthen (gets v_x) (\<lambda>x.
     andthen (gets v_y) (\<lambda>y.
     andthen (gets v_z) (\<lambda>z.
     call Plt_figure (plt_figure L chb [PyArray x, PyArray y, PyFloats z])))))))"

text \<open>Source lines 393-395: the first T2 channel, appended to the belt.\<close>

definition append_t2_channel :: "unit stmt" where
  "append_t2_channel =
     andthen (gets v_x) (\<lambda>x.
     andthen (gets v_y) (\<lambda>y.
     andthen (gets v_z) (\<lambda>z.
     andthen (call Mp_Channel (mp_Channel (Channel_args x y z) [])) (\<lambda>ch2.
     modify (\<lambda>s. s\<lparr>v_chb := (v_chb s)\<lparr>channels := channels (v_chb s) @ [ch2]\<rparr>\<rparr>)))))"

text \<open>Source lines 411-412: the second migration, and the belt's own plot.\<close>

definition migrate_t2 :: "libs \<Rightarrow> unit stmt" where
  "migrate_t2 L =
     andthen (gets v_chb) (\<lambda>chb.
     andthen (call Chb_migrate (chb_migrate L chb migrate_args [])) (\<lambda>chb.
     andthen (modify (\<lambda>s. s\<lparr>v_chb := chb\<rparr>)) (\<lambda>_.
     andthen (lift (py_index (cl_times chb) (- 1))) (\<lambda>endtime.
     call Chb_plot
       (chb_plot L chb
          [PyStr ''strat'', PyInt 20, PyInt 60, PyFloat endtime,
           PyInt (int (length (channels chb)))] [])))))"

text \<open>Source lines 428-442: the export of the last channel to \<open>t2_final_centerline.shp\<close>.\<close>

definition export_t2 :: "libs \<Rightarrow> unit stmt" where
  "export_t2 L =
     andthen (gets v_chb) (\<lambda>chb.
     andthen (lift (py_index (channels chb) (- 1))) (\<lambda>c.
     let t2_final_x = map (\<lambda>v. v + 560000) (ch_x c) in
     andthen (lift (py_index (channels chb) (- 1))) (\<lambda>c.
     let t2_final_y = map (\<lambda>v. v + 4300000) (ch_y c) in
     andthen (call Shapely_LineString (shapely_LineString L (zip t2_final_x t2_final_y)))
       (\<lambda>line_geometry.
     andthen (call Gpd_GeoDataFrame (Inr [line_geometry])) (\<lambda>gdf_result.
     let output_shapefile_t2 = centerline_dir @ ''t2_final_centerline.shp'' in
     gdf_to_file L gdf_result output_shapefile_t2)))))"

definition plot_all_centerlines :: "libs \<Rightarrow> unit stmt" where
  "plot_all_centerlines L =
     andthen (gets v_chb) (\<lambda>chb.
     andthen (lift (py_index (channels chb) 0)) (\<lambda>_.
     andthen (lift (py_index (channels chb) 9)) (\<lambda>_.
     andthen (lift (py_index (channels chb) 10)) (\<lambda>_.
     andthen (lift (py_index (channels chb) (- 1))) (\<lambda>_.
     call Plt_figure (plt_figure L chb []))))))"

text \<open>
  Source lines 508-525: the bounding box of all channels, with Python's \<open>min\<close> and \<open>max\<close>
  (which raise \<open>ValueError\<close> on an empty sequence), and four printed lines.
\<close>

definition py_min :: "array \<Rightarrow> py_error + real" where
  "py_min a = (if a = [] then Inl ValueError else Inr (Min (set a)))"

definition py_max :: "array \<Rightarrow> py_error + real" where
  "py_max a = (if a = [] then Inl ValueError else Inr (Max (set a)))"

fun bounding_loop ::
  "channel list \<Rightarrow> real \<times> real \<times> real \<times> real \<Rightarrow> py_error + (real \<times> real \<times> real \<times> real)" where
  "bounding_loop [] box = Inr box"
| "bounding_loop (channel # rest) (min_x, max_x, min_y, max_y) =
     (case py_min (ch_x channel) of Inl e \<Rightarrow> Inl e | Inr a \<Rightarrow>
     (case py_max (ch_x channel) of Inl e \<Rightarrow> Inl e | Inr b \<Rightarrow>
     (case py_min (ch_y channel) of Inl e \<Rightarrow> Inl e | Inr c \<Rightarrow>
     (case py_max (ch_y channel) of Inl e \<Rightarrow> Inl e | Inr d \<Rightarrow>
        bounding_loop rest (min min_x a, max max_x b, min min_y c, max max_y d)))))"

definition bounding_box :: "unit stmt" where
  "bounding_box =
     andthen (gets v_chb) (\<lambda>chb.
     andthen (lift (py_index (channels chb) 0)) (\<lambda>c0.
     andthen (lift (py_min (ch_x c0))) (\<lambda>min_x.
     andthen (lift (py_max (ch_x c0))) (\<lambda>max_x.
     andthen (lift (py_min (ch_y c0))) (\<lambda>min_y.
     andthen (lift (py_max (ch_y c0))) (\<lambda>max_y.
     andthen (lift (bounding_loop (channels chb) (min_x, max_x, min_y, max_y)))
       (\<lambda>(min_x, max_x, min_y, max_y).
     modify (\<lambda>s. s\<lparr>v_min_x := min_x, v_max_x := max_x, v_min_y := min_y, v_max_y := max_y,
                     printed := printed s @
                       [(''Absolute min x:'', min_x), (''Absolute max x:'', max_x),
                        (''Absolute min y:'', min_y), (''Absolute max y:'', max_y)]\<rparr>))))))))"

definition build_3d_post :: "libs \<Rightarrow> unit stmt" where
  "build_3d_post L =
     andthen (build_3d L) (\<lambda>m. modify (\<lambda>s. s\<lparr>v_chb_3d_postAvulsion := m\<rparr>))"


subsection \<open>Visualization with mayavi and stratigraph\<close>

text \<open>
  Source lines 596-598 (and 634-636):
  \<^verbatim>\<open>
  facies3d = np.zeros((m.strat.shape[0], m.strat.shape[1], m.strat.shape[2]-1))
  for i in range(len(m.facies)):
      facies3d[:,:,i] = m.facies[i] - 1
  \<close>
  A negative dimension makes \<open>np.zeros\<close> raise \<open>ValueError\<close>; a layer index past the third
  dimension raises \<open>IndexError\<close>.
\<close>

definition np_zeros3 :: "int \<Rightarrow> int \<Rightarrow> int \<Rightarrow> py_error + ndarray3" where
  "np_zeros3 a b c =
     (if a < 0 \<or> b < 0 \<or> c < 0 then Inl ValueError
      else Inr \<lparr>shape = (nat a, nat b, nat c), flat = replicate (nat a * nat b * nat c) 0\<rparr>)"

definition set_layer :: "ndarray3 \<Rightarrow> nat \<Rightarrow> real \<Rightarrow> py_error + ndarray3" where
  "set_layer a i v =
     (case shape a of (n0, n1, n2) \<Rightarrow>
        if n2 \<le> i then Inl IndexError
        else Inr (a\<lparr>flat := map (\<lambda>k. if k mod n2 = i then v else flat a ! k)
                                [0..<length (flat a)]\<rparr>))"

fun facies_loop :: "array \<Rightarrow> nat \<Rightarrow> ndarray3 \<Rightarrow> py_error + ndarray3" where
  "facies_loop [] i facies3d = Inr facies3d"
| "facies_loop (f # fs) i facies3d =
     (case set_layer facies3d i (f - 1) of
        Inl e \<Rightarrow> Inl e
      | Inr facies3d' \<Rightarrow> facies_loop fs (Suc i) facies3d')"

definition facies_volume :: "channel_belt_3d \<Rightarrow> py_error + ndarray3" where
  "facies_volume m =
     (case shape (strat m) of (n0, n1, n2) \<Rightarrow>
        (case np_zeros3 (int n0) (int n1) (int n2 - 1) of
           Inl e \<Rightarrow> Inl e
         | Inr facies3d \<Rightarrow> facies_loop (facies m) 0 facies3d))"

definition facies_volume_pre :: "unit stmt" where
  "facies_volume_pre =
     andthen (gets v_chb_3d_preAvulsion) (\<lambda>m.
     andthen (lift (facies_volume m)) (\<lambda>facies3d.
     modify (\<lambda>s. s\<lparr>v_facies3d := facies3d\<rparr>)))"

definition facies_volume_post :: "unit stmt" where
  "facies_volume_post =
     andthen (gets v_chb_3d_postAvulsion) (\<lambda>m.
     andthen (lift (facies_volume m)) (\<lambda>facies3d.
     modify (\<lambda>s. s\<lparr>v_facies3d := facies3d\<rparr>)))"

text \<open>
  Source lines 608-618 (and 646-656): a mayavi figure, the camera, and the block diagram of
  the stratigraphy; \<open>bottom\<close> is two below the lowest value of the volume.
\<close>

definition block_diagram_kwargs :: "int \<Rightarrow> real \<Rightarrow> real \<Rightarrow> kwargs" where
  "block_diagram_kwargs dx ve bottom =
     [(''dx'', PyInt dx), (''ve'', PyFloat ve), (''bottom'', PyFloat bottom),
      (''opacity'', PyFloat 1.0), (''texture'', PyNone), (''sea_level'', PyNone),
      (''xoffset'', PyInt 0), (''yoffset'', PyInt 0), (''scale'', PyInt 1), (''ci'', PyNone),
      (''plot_contours'', PyNone), (''topo_min'', PyNone), (''topo_max'', PyNone),
      (''plot_sides'', PyBool True), (''plot_water'', PyBool False),
      (''plot_surf'', PyBool True), (''surf_cmap'', PyStr ''gist_earth''),
      (''kmeans_colors'', PyNone)]"

definition block_diagram :: "libs \<Rightarrow> channel_belt_3d \<Rightarrow> unit stmt" where
  "block_diagram L m =
     andthen (call Mlab_figure
       (mlab_figure L [] [(''bgcolor'', PyTuple [PyInt 1, PyInt 1, PyInt 1])])) (\<lambda>_.
     andthen (call Mlab_view
       (mlab_view L [PyFloat azimuth, PyFloat elevation, PyFloat distance, PyArray focalpoint]
          [])) (\<lambda>_.
     let dx = 1; ve = 5.0 in
     andthen (lift (np_min (flat (strat m)))) (\<lambda>lowest.
     let bottom = lowest - 2 in
     andthen (modify (\<lambda>s. s\<lparr>v_bottom := bottom\<rparr>)) (\<lambda>_.
     call Sg_create_block_diagram
       (sg_create_block_diagram L [PyNd (strat m)] (block_diagram_kwargs dx ve bottom))))))"

definition block_diagram_pre :: "libs \<Rightarrow> unit stmt" where
  "block_diagram_pre L = andthen (gets v_chb_3d_preAvulsion) (block_diagram L)"

definition block_diagram_post :: "libs \<Rightarrow> unit stmt" where
  "block_diagram_post L = andthen (gets v_chb_3d_postAvulsion) (block_diagram L)"

text \<open>
  Source lines 683-694, 716-728 and 760-772 set \<open>xcoords\<close> and \<open>ycoords\<close>; lines 702-707,
  736-741 and 780-785 cut a section along them. All three sections are cut through
  \<open>chb_3d_postAvulsion\<close>, with the facies volume and \<open>bottom\<close> computed last.
\<close>

definition cookie_t1_coords :: "unit stmt" where
  "cookie_t1_coords =
     modify (\<lambda>s. s\<lparr>
       v_xcoords := [959.7740262381777, 864.727143292993, 787.9585070680363,
                     791.6141564120818, 960.7740262381777],
       v_ycoords := [976.5738330112887, 801.1026644971017, 808.4139631851929,
                     1024.0972744838812, 980.5738330112887]\<rparr>)"

definition cookie_t2_coords :: "unit stmt" where
  "cookie_t2_coords =
     modify (\<lambda>s. s\<lparr>
       v_xcoords := [396.80402725516126, 327.3466897182957, 484.53961151225474,
                     543.0300010169838, 395.80402725516126],
       v_ycoords := [1148.3893521814302, 1071.6207159564733, 932.7060408827418,
                     991.196430387471, 1151.0450015254758]\<rparr>)"

definition cookie_upstream_coords :: "unit stmt" where
  "cookie_upstream_coords =
     modify (\<lambda>s. s\<lparr>
       v_xcoords := [597.8647411776672, 543.0300010169838, 674.633377402624,
                     711.1898708430796, 595.2421438014849],
       v_ycoords := [534.2402623817757, 318.5569510830876, 303.9343537069053,
                     530.5846130377302, 533.8959117258213]\<rparr>)"

definition random_cookie_kwargs ::
  "ndarray3 \<Rightarrow> ndarray3 \<Rightarrow> real list \<Rightarrow> real list \<Rightarrow> real \<Rightarrow> kwargs" where
  "random_cookie_kwargs facies3d topo3d xcoords ycoords bottom =
     [(''facies'', PyNd facies3d), (''topo'', PyNd topo3d), (''scale'', PyInt 1),
      (''ve'', PyInt 3), (''color_mode'', PyStr ''facies''),
      (''colors'', PyList [PyList [PyFloat 0.9, PyFloat 0.9, PyInt 0],
                           PyList [PyFloat 0.5, PyFloat 0.25, PyInt 0]]),
      (''colormap'', PyStr ''gist_earth''),
      (''x1'', PyList (map PyFloat (butlast xcoords))),
      (''x2'', PyList (map PyFloat (drop 1 xcoords))),
      (''y1'', PyList (map PyFloat (butlast ycoords))),
      (''y2'', PyList (map PyFloat (drop 1 ycoords))),
      (''dx'', PyFloat 1.0), (''bottom'', PyFloat bottom), (''opacity'', PyFloat 1.0)]"

definition random_cookie :: "libs \<Rightarrow> unit stmt" where
  "random_cookie L =
     andthen (call Mlab_figure
       (mlab_figure L [] [(''bgcolor'', PyTuple [PyInt 1, PyInt 1, PyInt 1])])) (\<lambda>_.
     andthen (gets v_chb_3d_postAvulsion) (\<lambda>m.
     andthen (gets v_facies3d) (\<lambda>facies3d.
     andthen (gets v_xcoords) (\<lambda>xcoords.
     andthen (gets v_ycoords) (\<lambda>ycoords.
     andthen (gets v_bottom) (\<lambda>bottom.
     call Sg_create_random_cookie
       (sg_create_random_cookie L [PyNd (strat m)]
          (random_cookie_kwargs facies3d (topo m) xcoords ycoords bottom))))))))"

subsection \<open>The notebook\<close>

text \<open>
  The code cells in the order of the file. A run executes them once, top to bottom, and
  stops at the first exception.
\<close>

definition cells :: "libs \<Rightarrow> unit stmt list" where
  "cells L =
     [load_t1_centerline L, build_channel_belt, migrate_t1 L, export_t1 L, model_domain,
      build_3d_pre L,
      load_t2_centerline L, plot_t2_nodes L, set_t2_elevation L, plot_centerlines L,
      append_t2_channel, migrate_t2 L, export_t2 L, plot_all_centerlines L, bounding_box,
      build_3d_post L,
      facies_volume_pre, block_diagram_pre L, facies_volume_post, block_diagram_post L,
      cookie_t1_coords, random_cookie L, cookie_t2_coords, random_cookie L,
      cookie_upstream_coords, random_cookie L]"

fun run_cells :: "unit stmt list \<Rightarrow> nb \<Rightarrow> py_error + nb" where
  "run_cells [] s = Inr s"
| "run_cells (c # cs) s =
     (case c s of Inl e \<Rightarrow> Inl e | Inr (_, s') \<Rightarrow> run_cells cs s')"

definition notebook :: "libs \<Rightarrow> nb \<Rightarrow> py_error + nb" where
  "notebook L s = run_cells (cells L) s"

subsection \<open>The stages of the pipeline\<close>

datatype stage = Load | Resample_smooth | Construct | Migrate | Export | Build_3d | Visualize

fun stage_of :: "lib_call \<Rightarrow> stage" where
  "stage_of (Gpd_read_file _) = Load"
| "stage_of Mp_resample_centerline = Resample_smooth"
| "stage_of Sp_savgol_filter = Resample_smooth"
| "stage_of Mp_Channel = Construct"
| "stage_of Mp_ChannelBelt = Construct"
| "stage_of Chb_migrate = Migrate"
| "stage_of Shapely_LineString = Export"
| "stage_of Gpd_GeoDataFrame = Export"
| "stage_of (Gdf_to_file _) = Export"
| "stage_of Mp_build_3d_model = Build_3d"
| "stage_of Plt_figure = Visualize"
| "stage_of Chb_plot = Visualize"
| "stage_of Mlab_figure = Visualize"
| "stage_of Mlab_view = Visualize"
| "stage_of Sg_create_block_diagram = Visualize"
| "stage_of Sg_create_random_cookie = Visualize"

fun stage_rank :: "stage \<Rightarrow> nat" where
  "stage_rank Load = 0"
| "stage_rank Resample_smooth = 1"
| "stage_rank Construct = 2"
| "stage_rank Migrate = 3"
| "stage_rank Export = 4"
| "stage_rank Build_3d = 5"
| "stage_rank Visualize = 6"


subsection \<open>Auxiliary definitions for the proofs\<close>

text \<open>
  The value the loop body of \<open>generate_z_coordinates_with_constant\<close> appends at index \<open>i\<close>
  when the bounds are floats and no operation raises.
\<close>

definition ramp_entry :: "(real \<Rightarrow> fl) \<Rightarrow> int \<Rightarrow> int \<Rightarrow> fl \<Rightarrow> fl \<Rightarrow> int \<Rightarrow> fl" where
  "ramp_entry rnd n c lo up i =
     py_max2 (numpy_float64 rnd)
       (py_min2 (numpy_float64 rnd)
          (fl_sub rnd up
             (fl_int_mul rnd (i - c) (fl_div_int rnd (fl_sub rnd up lo) (ramp_divisor n c))))
          up)
       lo"

text \<open>
  What the theorems on the shape of the profile assume of the rounding, and what IEEE 754
  rounding to nearest satisfies: the result is never nan, rounding is monotone, zero is a
  float, and a float rounds to itself.
\<close>

definition rounding :: "(real \<Rightarrow> fl) \<Rightarrow> bool" where
  "rounding rnd \<longleftrightarrow>
     (\<forall>x. rnd x \<noteq> NaN)
     \<and> (\<forall>x y. x \<le> y \<longrightarrow> fl_le (rnd x) (rnd y))
     \<and> rnd 0 = Fin 0
     \<and> (\<forall>x y. rnd x = Fin y \<longrightarrow> rnd y = Fin y)"


text \<open>
  A sample rounding for concrete calls: exact up to the largest finite \<open>float64\<close>,
  \<open>(2 - 2^-52) * 2^1023\<close>, and an infinity beyond it; and the bound \<open>1e308\<close>.
\<close>

definition max_float64 :: real where
  "max_float64 = (2 - 1 / 2 ^ 52) * 2 ^ 1023"

definition float_1e308 :: real where
  "float_1e308 = 10 ^ 308"

definition round_overflow :: "real \<Rightarrow> fl" where
  "round_overflow x =
     (if max_float64 < x then PInf else if x < - max_float64 then NInf else Fin x)"

subsection \<open>Paths, call sequences and a sample session\<close>

definition t1_input :: string where
  "t1_input = centerline_dir @ ''t1_initial_centerline.shp''"

definition t2_input :: string where
  "t2_input = centerline_dir @ ''t2_initial_centerline.shp''"

definition t1_output :: string where
  "t1_output = centerline_dir @ ''t1_final_centerline.shp''"

definition t2_output :: string where
  "t2_output = centerline_dir @ ''t2_final_centerline.shp''"

text \<open>The library calls of a complete run, pass by pass.\<close>

definition t1_pass_calls :: "lib_call list" where
  "t1_pass_calls =
     [Gpd_read_file t1_input, Mp_resample_centerline, Sp_savgol_filter, Sp_savgol_filter,
      Mp_Channel, Mp_ChannelBelt, Chb_migrate,
      Shapely_LineString, Gpd_GeoDataFrame, Gdf_to_file t1_output,
      Mp_build_3d_model]"

definition t2_pass_calls :: "lib_call list" where
  "t2_pass_calls =
     [Gpd_read_file t2_input, Mp_resample_centerline, Sp_savgol_filter, Sp_savgol_filter,
      Plt_figure, Plt_figure,
      Mp_Channel, Chb_migrate, Chb_plot,
      Shapely_LineString, Gpd_GeoDataFrame, Gdf_to_file t2_output,
      Plt_figure,
      Mp_build_3d_model]"

definition visualization_calls :: "lib_call list" where
  "visualization_calls =
     [Mlab_figure, Mlab_view, Sg_create_block_diagram,
      Mlab_figure, Mlab_view, Sg_create_block_diagram,
      Mlab_figure, Sg_create_random_cookie,
      Mlab_figure, Sg_create_random_cookie,
      Mlab_figure, Sg_create_random_cookie]"

fun is_read :: "lib_call \<Rightarrow> bool" where
  "is_read (Gpd_read_file _) = True"
| "is_read _ = False"

text \<open>\<open>logs c evs\<close>: whenever the cell \<open>c\<close> completes, it has made exactly the calls \<open>evs\<close>.\<close>

definition logs :: "unit stmt \<Rightarrow> lib_call list \<Rightarrow> bool" where
  "logs c evs \<longleftrightarrow> (\<forall>s u s'. c s = Inr (u, s') \<longrightarrow> trace s' = trace s @ evs)"

text \<open>
  Two file systems that hold the same first geometry (or the same absence of one) at the
  two input paths; two sessions that differ in nothing but such files; and two outcomes
  that raise the same exception or complete with the same value in such sessions.
\<close>

definition same_inputs :: "(string \<rightharpoonup> geodataframe) \<Rightarrow> (string \<rightharpoonup> geodataframe) \<Rightarrow> bool" where
  "same_inputs f g \<longleftrightarrow>
     map_option (take 1) (f t1_input) = map_option (take 1) (g t1_input)
     \<and> map_option (take 1) (f t2_input) = map_option (take 1) (g t2_input)"

definition same_session :: "nb \<Rightarrow> nb \<Rightarrow> bool" where
  "same_session a b \<longleftrightarrow> same_inputs (files a) (files b) \<and> b\<lparr>files := files a\<rparr> = a"

definition same_outcome :: "py_error + ('a \<times> nb) \<Rightarrow> py_error + ('a \<times> nb) \<Rightarrow> bool" where
  "same_outcome r r' =
     (case (r, r') of
        (Inl e, Inl e') \<Rightarrow> e = e'
      | (Inr (v, a), Inr (v', b)) \<Rightarrow> v = v' \<and> same_session a b
      | _ \<Rightarrow> False)"

definition same_result :: "py_error + nb \<Rightarrow> py_error + nb \<Rightarrow> bool" where
  "same_result r r' =
     (case (r, r') of
        (Inl e, Inl e') \<Rightarrow> e = e'
      | (Inr a, Inr b) \<Rightarrow> same_session a b
      | _ \<Rightarrow> False)"

definition files_blind :: "'a stmt \<Rightarrow> bool" where
  "files_blind m \<longleftrightarrow> (\<forall>a b. same_session a b \<longrightarrow> same_outcome (m a) (m b))"

text \<open>
  A sample library for concrete runs: floats are not rounded, a missing file raises
  \<open>DataSourceError\<close>, every line is accepted and every file written; resampling and
  smoothing return the centerline unchanged, a migration appends ten copies of the last
  channel raised by two, the 3-D model is a small volume that depends on the belt and on
  the keyword arguments \<open>xmin\<close> and \<open>h_mud\<close>, and every drawing succeeds.
\<close>

fun demo_resample :: "pyval list \<Rightarrow> kwargs \<Rightarrow> py_error + (array \<times> array \<times> farray)" where
  "demo_resample [PyArray x, PyArray y, PyFloats z, ds] [] = Inr (x, y, z)"
| "demo_resample _ _ = Inl TypeError"

fun demo_savgol :: "pyval list \<Rightarrow> kwargs \<Rightarrow> py_error + array" where
  "demo_savgol [PyArray x, w, k] [] = Inr x"
| "demo_savgol _ _ = Inl TypeError"

fun raise_by_two :: "fl \<Rightarrow> fl" where
  "raise_by_two (Fin v) = Fin (v + 2)"
| "raise_by_two v = v"

definition demo_migrate :: "channel_belt \<Rightarrow> pyval list \<Rightarrow> kwargs \<Rightarrow> py_error + channel_belt" where
  "demo_migrate chb args kw =
     (case channels chb of
        [] \<Rightarrow> Inl IndexError
      | _ \<Rightarrow>
          Inr (chb\<lparr>channels := channels chb @
                 replicate 10
                   ((last (channels chb))
                      \<lparr>ch_z := map raise_by_two (ch_z (last (channels chb)))\<rparr>)\<rparr>))"

definition demo_volume :: "nat \<Rightarrow> real \<Rightarrow> nat \<Rightarrow> channel_belt_3d" where
  "demo_volume n xmin k =
     \<lparr>strat = \<lparr>shape = (1, 1, 3), flat = [xmin, xmin + 1, of_nat k]\<rparr>,
      topo = \<lparr>shape = (1, 1, 1), flat = [of_nat n]\<rparr>,
      facies = [1, 2]\<rparr>"

definition demo_build_3d ::
  "channel_belt \<Rightarrow> pyval list \<Rightarrow> kwargs \<Rightarrow> py_error + channel_belt_3d" where
  "demo_build_3d chb args kw =
     (case (map_of kw ''xmin'', map_of kw ''h_mud'') of
        (Some (PyFloat xmin), Some (PyArray h_mud)) \<Rightarrow>
          Inr (demo_volume (length (channels chb)) xmin (length h_mud))
      | _ \<Rightarrow> Inl TypeError)"

definition demo_libs :: libs where
  "demo_libs =
     \<lparr>np_round = Fin,
      gpd_read_error = DataSourceError,
      LineString_error = (\<lambda>coords. None),
      to_file_error = (\<lambda>gdf path. None),
      mp_resample_centerline = demo_resample,
      sp_savgol_filter = demo_savgol,
      chb_migrate = demo_migrate,
      chb_plot = (\<lambda>chb args kw. Inr ()),
      mp_build_3d_model = demo_build_3d,
      plt_figure = (\<lambda>chb arrays. Inr ()),
      mlab_figure = (\<lambda>args kw. Inr ()),
      mlab_view = (\<lambda>args kw. Inr ()),
      sg_create_block_diagram = (\<lambda>args kw. Inr ()),
      sg_create_random_cookie = (\<lambda>args kw. Inr ())\<rparr>"



text \<open>
  A sample session: both input shapefiles hold a line of 230 points in UTM coordinates
  (the second file holds a further geometry), and no global is set yet.
\<close>

definition demo_line :: geometry where
  "demo_line = LineString (replicate 230 (560100, 4300200))"

definition demo_session :: nb where
  "demo_session =
     \<lparr>files = [t1_input \<mapsto> [demo_line], t2_input \<mapsto> [demo_line, OtherGeometry]],
      trace = [], printed = [],
      v_x = [], v_y = [], v_z = [],
      v_chb = \<lparr>channels = [], cutoffs = [], cl_times = [], cutoff_times = []\<rparr>,
      v_min_x = 0, v_max_x = 0, v_min_y = 0, v_max_y = 0,
      v_chb_3d_preAvulsion = demo_volume 0 0 0, v_chb_3d_postAvulsion = demo_volume 0 0 0,
      v_facies3d = \<lparr>shape = (0, 0, 0), flat = []\<rparr>,
      v_bottom = 0, v_xcoords = [], v_ycoords = []\<rparr>"

section \<open>The elevation profile\<close>

subsection \<open>The loop, for every arithmetic\<close>

lemma z_loop_run:
  "(\<And>j. ramp_Z A n c lo up j = Inr (f j)) \<Longrightarrow>
   z_loop A i n c lo up acc zc =
     Inr (if i < n then Some (acc @ map f [i..n - 1]) else zc)"
proof (induction A i n c lo up acc zc rule: z_loop.induct)
  case (1 A i n c lo up acc zc)
  show ?case
  proof (cases "i < n")
    case True
    have unroll: "[i..n - 1] = i # [i + 1..n - 1]"
      using True by (simp add: upto_rec1)
    have step: "ramp_Z A n c lo up i = Inr (f i)" by (rule "1.prems")
    have "z_loop A (i + 1) n c lo up (acc @ [f i]) (Some (acc @ [f i])) =
            Inr (if i + 1 < n then Some ((acc @ [f i]) @ map f [i + 1..n - 1])
                 else Some (acc @ [f i]))"
      by (rule "1.IH"[OF True step "1.prems"])
    then show ?thesis
      using True by (subst z_loop.simps) (simp add: unroll step)
  next
    case False
    then show ?thesis by (subst z_loop.simps) simp
  qed
qed




lemma generate_z_unbound:
  assumes "int (length xs) \<le> c"
  shows "z_loop A c (int (length xs)) c lo up
           (replicate (nat (min c (int (length xs)))) up) None = Inr None"
    and "generate_z_coordinates_with_constant A xs ys c lo up = Inl UnboundLocalError"
  using assms
  by (simp_all add: generate_z_coordinates_with_constant_def Let_def z_loop.simps)

lemma generate_z_zero_divisor:
  assumes "int (length xs) = c + 1"
  shows "generate_z_coordinates_with_constant A xs ys c lo up =
           (case ramp_Z A (c + 1) c lo up c of
              Inl e \<Rightarrow> Inl e
            | Inr Z \<Rightarrow> Inr (replicate (nat c) up @ [Z]))"
proof -
  have m: "min c (c + 1) = c" by simp
  have two: "z_loop A (c + 1) (c + 1) c lo up acc zc = Inr zc" for acc zc
    by (subst z_loop.simps) simp
  have one: "z_loop A c (c + 1) c lo up acc None =
               (case ramp_Z A (c + 1) c lo up c of
                  Inl e \<Rightarrow> Inl e
                | Inr Z \<Rightarrow> Inr (Some (acc @ [Z])))" for acc
    by (subst z_loop.simps) (simp add: two split: sum.splits)
  show ?thesis
    unfolding generate_z_coordinates_with_constant_def Let_def assms m one
    by (simp split: sum.splits)
qed

lemma ramp_Z_zero_divisor:
  "ramp_Z A (c + 1) c lo up c =
     (case a_sub A up lo of Inl e \<Rightarrow> Inl e | Inr d \<Rightarrow>
     (case a_div_int A d 0 of Inl e \<Rightarrow> Inl e | Inr q \<Rightarrow>
     (case a_int_mul A 0 q of Inl e \<Rightarrow> Inl e | Inr p \<Rightarrow>
     (case a_sub A up p of Inl e \<Rightarrow> Inl e | Inr Z \<Rightarrow>
        Inr (py_max2 A (py_min2 A Z up) lo)))))"
  by (simp add: ramp_Z_def ramp_divisor_def split: sum.splits)

subsection \<open>Float bounds\<close>

lemma fl_lt_irrefl: "\<not> fl_lt a a"
  by (cases a) auto

lemma ramp_Z_numpy:
  "ramp_Z (numpy_float64 rnd) n c lo up i = Inr (ramp_entry rnd n c lo up i)"
  by (simp add: ramp_Z_def numpy_float64_def ramp_entry_def)

lemma ramp_Z_python:
  "ramp_divisor n c \<noteq> 0 \<Longrightarrow>
   ramp_Z (python_float rnd) n c lo up i = Inr (ramp_entry rnd n c lo up i)"
  by (simp add: ramp_Z_def python_float_def numpy_float64_def ramp_entry_def py_max2_def
        py_min2_def)

lemma generate_z_numpy:
  assumes "c < int (length xs)"
  shows "generate_z_coordinates_with_constant (numpy_float64 rnd) xs ys c lo up =
           Inr (replicate (nat (min c (int (length xs)))) up
                  @ map (ramp_entry rnd (int (length xs)) c lo up) [c..int (length xs) - 1])"
  using assms
  by (simp add: generate_z_coordinates_with_constant_def Let_def
        z_loop_run[where f = "ramp_entry rnd (int (length xs)) c lo up", OF ramp_Z_numpy])

lemma generate_z_python:
  assumes "c + 1 < int (length xs)"
  shows "generate_z_coordinates_with_constant (python_float rnd) xs ys c lo up =
           Inr (replicate (nat (min c (int (length xs)))) up
                  @ map (ramp_entry rnd (int (length xs)) c lo up) [c..int (length xs) - 1])"
proof -
  have "ramp_divisor (int (length xs)) c \<noteq> 0" using assms by (simp add: ramp_divisor_def)
  from ramp_Z_python[OF this]
  have "z_loop (python_float rnd) c (int (length xs)) c lo up acc None =
          Inr (if c < int (length xs)
               then Some (acc @ map (ramp_entry rnd (int (length xs)) c lo up)
                                 [c..int (length xs) - 1])
               else None)" for acc
    by (rule z_loop_run)
  then show ?thesis
    using assms by (simp add: generate_z_coordinates_with_constant_def Let_def)
qed





subsection \<open>The order of the entries\<close>

lemma fl_le_refl: "a \<noteq> NaN \<Longrightarrow> fl_le a a"
  by (simp add: fl_le_def fl_lt_irrefl)

lemma fl_le_Fin [simp]: "fl_le (Fin a) (Fin b) \<longleftrightarrow> a \<le> b"
  by (auto simp: fl_le_def)

lemma rounding_mono: "rounding rnd \<Longrightarrow> x \<le> y \<Longrightarrow> fl_le (rnd x) (rnd y)"
  by (simp add: rounding_def)

lemma rounding_not_nan: "rounding rnd \<Longrightarrow> rnd x \<noteq> NaN"
  by (simp add: rounding_def)

lemma rounding_nonneg: "rounding rnd \<Longrightarrow> 0 \<le> x \<Longrightarrow> fl_le (Fin 0) (rnd x)"
  using rounding_mono[of rnd 0 x] by (simp add: rounding_def)

lemma quotient_finite:
  assumes "rounding rnd" "l \<le> u" "rnd (u - l) = Fin dd" "0 < k"
  shows "\<exists>qq. fl_div_int rnd (fl_sub rnd (Fin u) (Fin l)) k = Fin qq \<and> 0 \<le> qq"
proof -
  from rounding_nonneg[OF assms(1), of "u - l"] assms(2,3) have dd: "0 \<le> dd" by simp
  from assms(1,3) have idem: "rnd dd = Fin dd" unfolding rounding_def by blast
  have k1: "1 \<le> (of_int k :: real)" using assms(4) by simp
  have "dd / of_int k \<le> dd / 1" using dd k1 by (intro divide_left_mono) auto
  then have "dd / of_int k \<le> dd" by simp
  from rounding_mono[OF assms(1) this] idem
  have up: "fl_le (rnd (dd / of_int k)) (Fin dd)" by simp
  have "0 \<le> dd / of_int k" using dd k1 by simp
  from rounding_nonneg[OF assms(1) this]
  have lo: "fl_le (Fin 0) (rnd (dd / of_int k))" .
  from up lo obtain qq where "rnd (dd / of_int k) = Fin qq" "0 \<le> qq"
    by (cases "rnd (dd / of_int k)") (auto simp: fl_le_def)
  then show ?thesis using assms(3,4) by simp
qed

lemma product_mono:
  assumes "rounding rnd" "0 \<le> qq" "i \<le> j"
  shows "fl_le (fl_int_mul rnd i (Fin qq)) (fl_int_mul rnd j (Fin qq))"
proof -
  have "of_int i * qq \<le> of_int j * qq"
    using assms(2,3) by (intro mult_right_mono) auto
  from rounding_mono[OF assms(1) this] show ?thesis by simp
qed

lemma difference_antimono:
  assumes "rounding rnd" "fl_le p p'"
  shows "fl_le (fl_sub rnd (Fin u) p') (fl_sub rnd (Fin u) p)"
proof -
  have nn: "rnd x \<noteq> NaN" for x by (rule rounding_not_nan[OF assms(1)])
  have low: "fl_le NInf (rnd x)" for x
    using nn[of x] by (cases "rnd x") (auto simp: fl_le_def)
  have high: "fl_le (rnd x) PInf" for x
    using nn[of x] by (cases "rnd x") (auto simp: fl_le_def)
  show ?thesis
  proof (cases p)
    case (Fin a)
    show ?thesis
    proof (cases p')
      case (Fin b)
      with assms(2) \<open>p = Fin a\<close> have "u - b \<le> u - a" by simp
      from rounding_mono[OF assms(1) this] show ?thesis
        using Fin \<open>p = Fin a\<close> by simp
    qed (use assms(2) Fin low in \<open>auto simp: fl_le_def\<close>)
  next
    case PInf
    with assms(2) have "p' = PInf" by (cases p') (auto simp: fl_le_def)
    with PInf show ?thesis by (simp add: fl_le_def)
  next
    case NInf
    with assms(2) high show ?thesis by (cases p') (auto simp: fl_le_def)
  next
    case NaN
    with assms(2) show ?thesis by (simp add: fl_le_def)
  qed
qed

lemma clamp_mono:
  assumes "l \<le> u" "fl_le Z' Z"
  shows "fl_le (py_max2 (numpy_float64 rnd) (py_min2 (numpy_float64 rnd) Z' (Fin u)) (Fin l))
               (py_max2 (numpy_float64 rnd) (py_min2 (numpy_float64 rnd) Z (Fin u)) (Fin l))"
  using assms
  by (cases Z; cases Z') (auto simp: py_max2_def py_min2_def numpy_float64_def fl_le_def)

lemma clamp_interval:
  assumes "l \<le> u" "Z \<noteq> NaN"
  shows "fl_le (Fin l) (py_max2 (numpy_float64 rnd) (py_min2 (numpy_float64 rnd) Z (Fin u)) (Fin l))
       \<and> fl_le (py_max2 (numpy_float64 rnd) (py_min2 (numpy_float64 rnd) Z (Fin u)) (Fin l)) (Fin u)"
  using assms
  by (cases Z) (auto simp: py_max2_def py_min2_def numpy_float64_def fl_le_def)

lemma ramp_entry_ordered:
  assumes "rounding rnd" "l \<le> u" "c + 1 < n" "rnd (u - l) = Fin dd" "c \<le> i" "i \<le> j"
  shows "fl_le (ramp_entry rnd n c (Fin l) (Fin u) j) (ramp_entry rnd n c (Fin l) (Fin u) i)"
    and "fl_le (Fin l) (ramp_entry rnd n c (Fin l) (Fin u) i)"
    and "fl_le (ramp_entry rnd n c (Fin l) (Fin u) i) (Fin u)"
proof -
  have "0 < ramp_divisor n c" using assms(3) by (simp add: ramp_divisor_def)
  from quotient_finite[OF assms(1,2,4) this] obtain qq where
    q: "fl_div_int rnd (fl_sub rnd (Fin u) (Fin l)) (ramp_divisor n c) = Fin qq"
    and qq: "0 \<le> qq" by blast
  have e: "ramp_entry rnd n c (Fin l) (Fin u) k =
             py_max2 (numpy_float64 rnd)
               (py_min2 (numpy_float64 rnd)
                  (fl_sub rnd (Fin u) (fl_int_mul rnd (k - c) (Fin qq))) (Fin u))
               (Fin l)" for k
    unfolding ramp_entry_def q by (rule refl)
  have "i - c \<le> j - c" using assms(6) by simp
  from product_mono[OF assms(1) qq this]
  have p: "fl_le (fl_int_mul rnd (i - c) (Fin qq)) (fl_int_mul rnd (j - c) (Fin qq))" .
  from difference_antimono[OF assms(1) p]
  have z: "fl_le (fl_sub rnd (Fin u) (fl_int_mul rnd (j - c) (Fin qq)))
                 (fl_sub rnd (Fin u) (fl_int_mul rnd (i - c) (Fin qq)))" .
  show "fl_le (ramp_entry rnd n c (Fin l) (Fin u) j) (ramp_entry rnd n c (Fin l) (Fin u) i)"
    unfolding e by (rule clamp_mono[OF assms(2) z])
  from z have nn: "fl_sub rnd (Fin u) (fl_int_mul rnd (i - c) (Fin qq)) \<noteq> NaN"
    unfolding fl_le_def by blast
  show "fl_le (Fin l) (ramp_entry rnd n c (Fin l) (Fin u) i)"
    unfolding e by (rule clamp_interval[OF assms(2) nn, THEN conjunct1])
  show "fl_le (ramp_entry rnd n c (Fin l) (Fin u) i) (Fin u)"
    unfolding e by (rule clamp_interval[OF assms(2) nn, THEN conjunct2])
qed


lemma rounding_round_overflow: "rounding round_overflow"
proof -
  have pos: "0 < max_float64" by (simp add: max_float64_def)
  show ?thesis
    unfolding rounding_def
  proof (intro conjI allI impI)
    fix x show "round_overflow x \<noteq> NaN" by (simp add: round_overflow_def)
  next
    fix x y :: real assume "x \<le> y"
    then show "fl_le (round_overflow x) (round_overflow y)"
      using pos by (auto simp: round_overflow_def fl_le_def)
  next
    show "round_overflow 0 = Fin 0" using pos by (simp add: round_overflow_def)
  next
    fix x y assume "round_overflow x = Fin y"
    then show "round_overflow y = Fin y"
      by (auto simp: round_overflow_def split: if_splits)
  qed
qed

subsection \<open>The claims on the elevation profile\<close>


lemmas generate_z_eval =
  generate_z_coordinates_with_constant_def Let_def z_loop.simps ramp_Z_def ramp_divisor_def
  numpy_float64_def python_float_def py_max2_def py_min2_def



text \<open>
  Claim C8: when \<open>constant_values_count >= len(x_coordinates)\<close> the loop body never runs,
  \<open>z_coords\<close> stays unbound and the function raises \<open>UnboundLocalError\<close>, whatever the
  bounds. When \<open>len(x_coordinates) = constant_values_count + 1\<close> the divisor of the ramp
  is zero and the one evaluation of the ramp expression divides \<open>upper_bound -
  lower_bound\<close> by zero: if that division raises, the call raises the same exception, as it
  does with \<open>ZeroDivisionError\<close> for Python floats; numpy \<open>float64\<close> bounds divide to an
  infinity or nan instead, and the call returns the plateau followed by nan.
\<close>

theorem generate_z_partial:
  fixes lower_bound upper_bound :: 'a and lo up :: fl
  shows
  "(int (length x_coordinates) \<le> constant_values_count \<longrightarrow>
      z_loop A constant_values_count (int (length x_coordinates)) constant_values_count
          lower_bound upper_bound
          (replicate (nat (min constant_values_count (int (length x_coordinates))))
             upper_bound) None = Inr None
      \<and> generate_z_coordinates_with_constant A x_coordinates y_coordinates
          constant_values_count lower_bound upper_bound = Inl UnboundLocalError)
   \<and> (int (length x_coordinates) = constant_values_count + 1 \<longrightarrow>
      ramp_divisor (int (length x_coordinates)) constant_values_count = 0
      \<and> generate_z_coordinates_with_constant A x_coordinates y_coordinates
          constant_values_count lower_bound upper_bound =
          (case a_sub A upper_bound lower_bound of Inl e \<Rightarrow> Inl e | Inr d \<Rightarrow>
          (case a_div_int A d 0 of Inl e \<Rightarrow> Inl e | Inr q \<Rightarrow>
          (case a_int_mul A 0 q of Inl e \<Rightarrow> Inl e | Inr p \<Rightarrow>
          (case a_sub A upper_bound p of Inl e \<Rightarrow> Inl e | Inr Z \<Rightarrow>
             Inr (replicate (nat constant_values_count) upper_bound
                    @ [py_max2 A (py_min2 A Z upper_bound) lower_bound])))))
      \<and> (\<forall>d e. a_sub A upper_bound lower_bound = Inr d \<and> a_div_int A d 0 = Inl e \<longrightarrow>
            generate_z_coordinates_with_constant A x_coordinates y_coordinates
              constant_values_count lower_bound upper_bound = Inl e)
      \<and> generate_z_coordinates_with_constant (python_float rnd) x_coordinates y_coordinates
          constant_values_count lo up = Inl ZeroDivisionError
      \<and> generate_z_coordinates_with_constant (numpy_float64 rnd) x_coordinates y_coordinates
          constant_values_count lo up = Inr (replicate (nat constant_values_count) up @ [NaN]))"
proof (intro conjI impI allI)
  assume "int (length x_coordinates) \<le> constant_values_count"
  then show "z_loop A constant_values_count (int (length x_coordinates))
          constant_values_count lower_bound upper_bound
          (replicate (nat (min constant_values_count (int (length x_coordinates))))
             upper_bound) None = Inr None"
    and "generate_z_coordinates_with_constant A x_coordinates y_coordinates
          constant_values_count lower_bound upper_bound = Inl UnboundLocalError"
    by (rule generate_z_unbound)+
next
  assume n: "int (length x_coordinates) = constant_values_count + 1"
  then show "ramp_divisor (int (length x_coordinates)) constant_values_count = 0"
    by (simp add: ramp_divisor_def)
  have gen: "generate_z_coordinates_with_constant B x_coordinates y_coordinates
          constant_values_count l u =
          (case a_sub B u l of Inl e \<Rightarrow> Inl e | Inr d \<Rightarrow>
          (case a_div_int B d 0 of Inl e \<Rightarrow> Inl e | Inr q \<Rightarrow>
          (case a_int_mul B 0 q of Inl e \<Rightarrow> Inl e | Inr p \<Rightarrow>
          (case a_sub B u p of Inl e \<Rightarrow> Inl e | Inr Z \<Rightarrow>
             Inr (replicate (nat constant_values_count) u
                    @ [py_max2 B (py_min2 B Z u) l])))))"
    for B :: "'z arith" and l u
    unfolding generate_z_zero_divisor[OF n] ramp_Z_zero_divisor
    by (simp split: sum.splits)
  show "generate_z_coordinates_with_constant A x_coordinates y_coordinates
          constant_values_count lower_bound upper_bound =
          (case a_sub A upper_bound lower_bound of Inl e \<Rightarrow> Inl e | Inr d \<Rightarrow>
          (case a_div_int A d 0 of Inl e \<Rightarrow> Inl e | Inr q \<Rightarrow>
          (case a_int_mul A 0 q of Inl e \<Rightarrow> Inl e | Inr p \<Rightarrow>
          (case a_sub A upper_bound p of Inl e \<Rightarrow> Inl e | Inr Z \<Rightarrow>
             Inr (replicate (nat constant_values_count) upper_bound
                    @ [py_max2 A (py_min2 A Z upper_bound) lower_bound])))))"
    by (rule gen)
  show "generate_z_coordinates_with_constant (python_float rnd) x_coordinates y_coordinates
          constant_values_count lo up = Inl ZeroDivisionError"
    unfolding gen by (simp add: python_float_def)
  have nan: "fl_int_mul rnd 0 (fl_div_int rnd d 0) = NaN" for d
    by (cases d) auto
  show "generate_z_coordinates_with_constant (numpy_float64 rnd) x_coordinates y_coordinates
          constant_values_count lo up = Inr (replicate (nat constant_values_count) up @ [NaN])"
    unfolding gen by (cases up) (simp_all add: numpy_float64_def nan py_max2_def py_min2_def)
  fix d e
  assume "a_sub A upper_bound lower_bound = Inr d \<and> a_div_int A d 0 = Inl e"
  then show "generate_z_coordinates_with_constant A x_coordinates y_coordinates
              constant_values_count lower_bound upper_bound = Inl e"
    unfolding gen by simp
qed

theorem generate_z_partial_witness:
  "int (length [1, 2, 3 :: real]) \<le> 3
   \<and> generate_z_coordinates_with_constant (numpy_float64 Fin) [1, 2, 3 :: real]
        [1, 2, 3 :: real] 3 (Fin 0) (Fin 10) = Inl UnboundLocalError
   \<and> int (length [1, 2, 3 :: real]) = 2 + 1
   \<and> ramp_divisor (int (length [1, 2, 3 :: real])) 2 = 0
   \<and> a_sub (python_float Fin) (Fin 10) (Fin 0) = Inr (Fin 10)
   \<and> a_div_int (python_float Fin) (Fin 10) 0 = Inl ZeroDivisionError
   \<and> generate_z_coordinates_with_constant (python_float Fin) [1, 2, 3 :: real]
        [1, 2, 3 :: real] 2 (Fin 0) (Fin 10) = Inl ZeroDivisionError
   \<and> generate_z_coordinates_with_constant (numpy_float64 Fin) [1, 2, 3 :: real]
        [1, 2, 3 :: real] 2 (Fin 0) (Fin 10) = Inr [Fin 10, Fin 10, NaN]"
proof -
  have h1: "int (length [1, 2, 3 :: real]) \<le> 3" and h2: "int (length [1, 2, 3 :: real]) = 2 + 1"
    by simp_all
  have s: "a_sub (python_float Fin) (Fin 10) (Fin 0) = Inr (Fin 10)
           \<and> a_div_int (python_float Fin) (Fin 10) 0 = Inl ZeroDivisionError"
    by (simp add: python_float_def)
  note a = generate_z_partial[where A = "numpy_float64 Fin" and x_coordinates = "[1, 2, 3 :: real]"
      and y_coordinates = "[1, 2, 3 :: real]" and constant_values_count = 3
      and lower_bound = "Fin 0" and upper_bound = "Fin 10", THEN conjunct1, rule_format, OF h1]
  note b = generate_z_partial[where A = "python_float Fin" and x_coordinates = "[1, 2, 3 :: real]"
      and y_coordinates = "[1, 2, 3 :: real]" and constant_values_count = 2
      and lower_bound = "Fin 0" and upper_bound = "Fin 10" and rnd = Fin and lo = "Fin 0"
      and up = "Fin 10", THEN conjunct2, rule_format, OF h2]
  from b have b1: "ramp_divisor (int (length [1, 2, 3 :: real])) 2 = 0" by blast
  from b s have b2: "generate_z_coordinates_with_constant (python_float Fin) [1, 2, 3 :: real]
        [1, 2, 3 :: real] 2 (Fin 0) (Fin 10) = Inl ZeroDivisionError" by blast
  from b have b3: "generate_z_coordinates_with_constant (numpy_float64 Fin) [1, 2, 3 :: real]
        [1, 2, 3 :: real] 2 (Fin 0) (Fin 10) = Inr (replicate (nat 2) (Fin 10) @ [NaN])"
    by blast
  from a b1 b2 b3 s h1 h2 show ?thesis by (simp add: eval_nat_numeral)
qed

text \<open>
  Claim C9, as it holds: with finite float bounds \<open>lower_bound <= upper_bound\<close> whose
  difference \<open>upper_bound - lower_bound\<close> does not overflow, and
  \<open>constant_values_count + 1 < len(x_coordinates)\<close>, the function returns an array without
  nan in which every entry is at most the entry before it. This holds for every rounding
  that is monotone, never nan and leaves zero and every float as it is.
\<close>

theorem generate_z_nonincreasing:
  assumes "rounding rnd"
      and "l \<le> u"
      and "constant_values_count + 1 < int (length x_coordinates)"
      and "rnd (u - l) = Fin d"
  shows "\<exists>zs. generate_z_coordinates_with_constant (numpy_float64 rnd) x_coordinates
                 y_coordinates constant_values_count (Fin l) (Fin u) = Inr zs
              \<and> generate_z_coordinates_with_constant (python_float rnd) x_coordinates
                 y_coordinates constant_values_count (Fin l) (Fin u) = Inr zs
              \<and> (\<forall>k. k < length zs \<longrightarrow> zs ! k \<noteq> NaN)
              \<and> (\<forall>k. Suc k < length zs \<longrightarrow> fl_le (zs ! Suc k) (zs ! k))"
proof -
  let ?n = "int (length x_coordinates)"
  let ?c = "constant_values_count"
  let ?f = "ramp_entry rnd ?n ?c (Fin l) (Fin u)"
  let ?zs = "replicate (nat (min ?c ?n)) (Fin u) @ map ?f [?c..?n - 1]"
  have lt: "?c < ?n" using assms(3) by simp
  have np: "generate_z_coordinates_with_constant (numpy_float64 rnd) x_coordinates
              y_coordinates ?c (Fin l) (Fin u) = Inr ?zs"
    by (rule generate_z_numpy[OF lt])
  have py: "generate_z_coordinates_with_constant (python_float rnd) x_coordinates
              y_coordinates ?c (Fin l) (Fin u) = Inr ?zs"
    by (rule generate_z_python[OF assms(3)])
  note ord = ramp_entry_ordered[OF assms(1,2,3,4)]
  have ramp: "sorted_wrt (\<lambda>a b. fl_le b a) (map ?f [?c..?n - 1])"
  proof -
    have "sorted_wrt (\<lambda>a b. fl_le (?f b) (?f a)) [?c..?n - 1]"
    proof (rule sorted_wrt_mono_rel[OF _ sorted_wrt_upto])
      fix i j assume "i \<in> set [?c..?n - 1]" "j \<in> set [?c..?n - 1]" "i < j"
      then have "?c \<le> i" "i \<le> j" by simp_all
      then show "fl_le (?f j) (?f i)" by (rule ord(1))
    qed
    then show ?thesis by (simp add: sorted_wrt_map)
  qed
  have plateau: "sorted_wrt (\<lambda>a b. fl_le b a) (replicate m (Fin u))" for m
    by (induction m) auto
  have cross: "fl_le (?f j) (Fin u)" if "j \<in> set [?c..?n - 1]" for j
    using that by (intro ord(3)[OF _ order_refl]) simp
  have s: "sorted_wrt (\<lambda>a b. fl_le b a) ?zs"
    using ramp plateau cross by (auto simp: sorted_wrt_append)
  have adj: "\<forall>k. Suc k < length ?zs \<longrightarrow> fl_le (?zs ! Suc k) (?zs ! k)"
    using s by (metis (mono_tags, lifting) lessI sorted_wrt_nth_less)
  have nn: "\<forall>k. k < length ?zs \<longrightarrow> ?zs ! k \<noteq> NaN"
  proof (intro allI impI)
    fix k assume "k < length ?zs"
    then have "?zs ! k \<in> set ?zs" by (rule nth_mem)
    then have "?zs ! k = Fin u \<or> (\<exists>j \<in> set [?c..?n - 1]. ?zs ! k = ?f j)"
      by (auto split: if_splits)
    then show "?zs ! k \<noteq> NaN"
    proof
      assume "?zs ! k = Fin u" then show ?thesis by simp
    next
      assume "\<exists>j \<in> set [?c..?n - 1]. ?zs ! k = ?f j"
      then obtain j where "?c \<le> j" and e: "?zs ! k = ?f j" by auto
      from ord(2)[OF this(1) order_refl] have "?f j \<noteq> NaN" by (auto simp: fl_le_def)
      with e show ?thesis by simp
    qed
  qed
  from np py nn adj show ?thesis by blast
qed

theorem generate_z_nonincreasing_witness:
  "rounding round_overflow \<and> (1::real) \<le> 4
   \<and> (2::int) + 1 < int (length [0, 0, 0, 0, 0, 0 :: real])
   \<and> round_overflow (4 - 1) = Fin 3
   \<and> generate_z_coordinates_with_constant (numpy_float64 round_overflow)
        [0, 0, 0, 0, 0, 0 :: real] ([] :: real list) 2 (Fin 1) (Fin 4)
       = Inr [Fin 4, Fin 4, Fin 4, Fin 3, Fin 2, Fin 1]
   \<and> fl_le (Fin 3) (Fin 4) \<and> fl_le (Fin 1) (Fin 2)"
proof -
  have pos: "4 < max_float64" by (simp add: max_float64_def)
  have r: "round_overflow x = Fin x" if "\<bar>x\<bar> \<le> 4" for x
    using that pos by (auto simp: round_overflow_def abs_le_iff)
  have h2: "(1::real) \<le> 4" and h3: "(2::int) + 1 < int (length [0, 0, 0, 0, 0, 0 :: real])"
    and h4: "round_overflow (4 - 1) = Fin 3"
    by (simp_all add: r)
  from generate_z_nonincreasing[where rnd = round_overflow
      and x_coordinates = "[0, 0, 0, 0, 0, 0 :: real]" and y_coordinates = "[] :: real list",
      OF rounding_round_overflow h2 h3 h4]
  obtain zs where
    np: "generate_z_coordinates_with_constant (numpy_float64 round_overflow)
           [0, 0, 0, 0, 0, 0 :: real] ([] :: real list) 2 (Fin 1) (Fin 4) = Inr zs"
    and adj: "\<forall>k. Suc k < length zs \<longrightarrow> fl_le (zs ! Suc k) (zs ! k)" by blast
  have "generate_z_coordinates_with_constant (numpy_float64 round_overflow)
          [0, 0, 0, 0, 0, 0 :: real] ([] :: real list) 2 (Fin 1) (Fin 4)
          = Inr [Fin 4, Fin 4, Fin 4, Fin 3, Fin 2, Fin 1]"
    by (simp add: generate_z_eval r eval_nat_numeral)
  with np have zs: "zs = [Fin 4, Fin 4, Fin 4, Fin 3, Fin 2, Fin 1]" by simp
  from adj[rule_format, of 2] adj[rule_format, of 4]
  have "fl_le (Fin 3) (Fin 4)" "fl_le (Fin 1) (Fin 2)" by (simp_all add: zs)
  with np zs rounding_round_overflow h2 h3 h4 show ?thesis by simp
qed

text \<open>
  Claim C9 as stated covers every pair of bounds in order. For the bounds \<open>-1e308\<close> and
  \<open>1e308\<close> the difference \<open>upper_bound - lower_bound\<close> overflows to infinity; the first
  ramp entry is \<open>0 * inf\<close>, which is nan, and the entry after it is not less than or equal
  to it.
\<close>

theorem generate_z_overflow:
  "fl_le (Fin (- float_1e308)) (Fin float_1e308)
   \<and> (0::int) + 1 < int (length [0, 0, 0 :: real])
   \<and> generate_z_coordinates_with_constant (numpy_float64 round_overflow)
        [0, 0, 0 :: real] ([] :: real list) 0 (Fin (- float_1e308)) (Fin float_1e308)
       = Inr [NaN, Fin (- float_1e308), Fin (- float_1e308)]
   \<and> \<not> fl_le ([NaN, Fin (- float_1e308), Fin (- float_1e308)] ! 1)
              ([NaN, Fin (- float_1e308), Fin (- float_1e308)] ! 0)"
proof -
  have pos: "0 < float_1e308" by (simp add: float_1e308_def)
  have "max_float64 < 2 * float_1e308"
    by (simp add: max_float64_def float_1e308_def)
  then have d: "round_overflow (2 * float_1e308) = PInf"
    by (simp add: round_overflow_def)
  show ?thesis
    using pos by (simp add: generate_z_eval d fl_le_def)
qed

section \<open>The notebook\<close>

subsection \<open>Statements\<close>

lemmas stmt_defs =
  andthen_def lift_def call_def modify_def gets_def ret_def gpd_read_file_def
  gdf_to_file_def shapely_LineString_def Let_def

lemmas path_defs = t1_input_def t2_input_def t1_output_def t2_output_def

lemma run_cells_append:
  "run_cells (cs @ ds) s =
     (case run_cells cs s of Inl e \<Rightarrow> Inl e | Inr s' \<Rightarrow> run_cells ds s')"
  by (induction cs arbitrary: s) (auto split: sum.splits)

lemma run_cells_split:
  assumes "run_cells cs s = Inr s'"
  shows "\<exists>s1. run_cells (take k cs) s = Inr s1 \<and> run_cells (drop k cs) s1 = Inr s'"
proof -
  have "run_cells (take k cs @ drop k cs) s = Inr s'" using assms by simp
  then have "(case run_cells (take k cs) s of Inl e \<Rightarrow> Inl e
              | Inr s1 \<Rightarrow> run_cells (drop k cs) s1) = Inr s'"
    by (simp only: run_cells_append)
  then show ?thesis by (auto split: sum.splits)
qed


subsection \<open>The calls each cell makes\<close>

lemma load_t1_centerline_logs:
  "logs (load_t1_centerline L)
     [Gpd_read_file t1_input, Mp_resample_centerline, Sp_savgol_filter, Sp_savgol_filter]"
  unfolding logs_def
  by (auto simp: load_t1_centerline_def stmt_defs path_defs
           split: sum.splits option.splits prod.splits)

lemma load_t2_centerline_logs:
  "logs (load_t2_centerline L)
     [Gpd_read_file t2_input, Mp_resample_centerline, Sp_savgol_filter, Sp_savgol_filter]"
  unfolding logs_def
  by (auto simp: load_t2_centerline_def stmt_defs path_defs
           split: sum.splits option.splits prod.splits)

lemma build_channel_belt_logs: "logs build_channel_belt [Mp_Channel, Mp_ChannelBelt]"
  unfolding logs_def
  by (auto simp: build_channel_belt_def stmt_defs split: sum.splits)

lemma migrate_t1_logs: "logs (migrate_t1 L) [Chb_migrate]"
  unfolding logs_def
  by (auto simp: migrate_t1_def stmt_defs split: sum.splits)

lemma export_t1_logs:
  "logs (export_t1 L) [Shapely_LineString, Gpd_GeoDataFrame, Gdf_to_file t1_output]"
  unfolding logs_def
  by (auto simp: export_t1_def stmt_defs path_defs split: sum.splits option.splits)

lemma export_t2_logs:
  "logs (export_t2 L) [Shapely_LineString, Gpd_GeoDataFrame, Gdf_to_file t2_output]"
  unfolding logs_def
  by (auto simp: export_t2_def stmt_defs path_defs split: sum.splits option.splits)

lemma model_domain_logs: "logs model_domain []"
  unfolding logs_def by (auto simp: model_domain_def stmt_defs)

lemma build_3d_trace:
  "build_3d L s = Inr (m, s') \<Longrightarrow> trace s' = trace s @ [Mp_build_3d_model]"
  by (auto simp: build_3d_def stmt_defs split: sum.splits)

lemma build_3d_pre_logs: "logs (build_3d_pre L) [Mp_build_3d_model]"
  unfolding logs_def
  by (auto simp: build_3d_pre_def andthen_def modify_def dest!: build_3d_trace
           split: sum.splits)

lemma build_3d_post_logs: "logs (build_3d_post L) [Mp_build_3d_model]"
  unfolding logs_def
  by (auto simp: build_3d_post_def andthen_def modify_def dest!: build_3d_trace
           split: sum.splits)

lemma plot_t2_nodes_logs: "logs (plot_t2_nodes L) [Plt_figure]"
  unfolding logs_def
  by (auto simp: plot_t2_nodes_def stmt_defs split: sum.splits)

lemma set_t2_elevation_logs: "logs (set_t2_elevation L) []"
  unfolding logs_def
  by (auto simp: set_t2_elevation_def stmt_defs split: sum.splits)

lemma plot_centerlines_logs: "logs (plot_centerlines L) [Plt_figure]"
  unfolding logs_def
  by (auto simp: plot_centerlines_def stmt_defs split: sum.splits)

lemma append_t2_channel_logs: "logs append_t2_channel [Mp_Channel]"
  unfolding logs_def
  by (auto simp: append_t2_channel_def stmt_defs split: sum.splits)

lemma migrate_t2_logs: "logs (migrate_t2 L) [Chb_migrate, Chb_plot]"
  unfolding logs_def
  by (auto simp: migrate_t2_def stmt_defs split: sum.splits)

lemma plot_all_centerlines_logs: "logs (plot_all_centerlines L) [Plt_figure]"
  unfolding logs_def
  by (auto simp: plot_all_centerlines_def stmt_defs split: sum.splits)

lemma bounding_box_logs: "logs bounding_box []"
  unfolding logs_def
  by (auto simp: bounding_box_def stmt_defs split: sum.splits prod.splits)

lemma facies_volume_pre_logs: "logs facies_volume_pre []"
  unfolding logs_def
  by (auto simp: facies_volume_pre_def stmt_defs split: sum.splits)

lemma facies_volume_post_logs: "logs facies_volume_post []"
  unfolding logs_def
  by (auto simp: facies_volume_post_def stmt_defs split: sum.splits)

lemma block_diagram_trace:
  "block_diagram L m s = Inr (u, s') \<Longrightarrow>
     trace s' = trace s @ [Mlab_figure, Mlab_view, Sg_create_block_diagram]"
  by (auto simp: block_diagram_def stmt_defs split: sum.splits)

lemma block_diagram_pre_logs:
  "logs (block_diagram_pre L) [Mlab_figure, Mlab_view, Sg_create_block_diagram]"
  unfolding logs_def
  by (auto simp: block_diagram_pre_def andthen_def gets_def dest!: block_diagram_trace)

lemma block_diagram_post_logs:
  "logs (block_diagram_post L) [Mlab_figure, Mlab_view, Sg_create_block_diagram]"
  unfolding logs_def
  by (auto simp: block_diagram_post_def andthen_def gets_def dest!: block_diagram_trace)

lemma cookie_coords_logs:
  "logs cookie_t1_coords []" "logs cookie_t2_coords []" "logs cookie_upstream_coords []"
  unfolding logs_def
  by (auto simp: cookie_t1_coords_def cookie_t2_coords_def cookie_upstream_coords_def
        modify_def)

lemma random_cookie_logs: "logs (random_cookie L) [Mlab_figure, Sg_create_random_cookie]"
  unfolding logs_def
  by (auto simp: random_cookie_def stmt_defs split: sum.splits)

lemma run_cells_logs:
  "list_all2 logs cs evss \<Longrightarrow> run_cells cs s = Inr s' \<Longrightarrow> trace s' = trace s @ concat evss"
proof (induction cs evss arbitrary: s rule: list_all2_induct)
  case Nil
  then show ?case by simp
next
  case (Cons c cs evs evss)
  from Cons.prems obtain u s1 where c: "c s = Inr (u, s1)" and r: "run_cells cs s1 = Inr s'"
    by (auto split: sum.splits)
  from Cons.hyps(1) c have "trace s1 = trace s @ evs" by (auto simp: logs_def)
  moreover from Cons.IH r have "trace s' = trace s1 @ concat evss" by blast
  ultimately show ?case by simp
qed

lemma notebook_trace:
  assumes "notebook L s = Inr s'"
  shows "trace s' = trace s @ t1_pass_calls @ t2_pass_calls @ visualization_calls"
proof -
  let ?evss =
    "[ [Gpd_read_file t1_input, Mp_resample_centerline, Sp_savgol_filter, Sp_savgol_filter],
      [Mp_Channel, Mp_ChannelBelt], [Chb_migrate],
      [Shapely_LineString, Gpd_GeoDataFrame, Gdf_to_file t1_output], [],
      [Mp_build_3d_model],
      [Gpd_read_file t2_input, Mp_resample_centerline, Sp_savgol_filter, Sp_savgol_filter],
      [Plt_figure], [], [Plt_figure], [Mp_Channel], [Chb_migrate, Chb_plot],
      [Shapely_LineString, Gpd_GeoDataFrame, Gdf_to_file t2_output], [Plt_figure], [],
      [Mp_build_3d_model],
      [], [Mlab_figure, Mlab_view, Sg_create_block_diagram],
      [], [Mlab_figure, Mlab_view, Sg_create_block_diagram],
      [], [Mlab_figure, Sg_create_random_cookie],
      [], [Mlab_figure, Sg_create_random_cookie],
      [], [Mlab_figure, Sg_create_random_cookie]]"
  have "list_all2 logs (cells L) ?evss"
    unfolding cells_def
    by (simp add: load_t1_centerline_logs load_t2_centerline_logs build_channel_belt_logs
          migrate_t1_logs export_t1_logs export_t2_logs model_domain_logs build_3d_pre_logs
          build_3d_post_logs plot_t2_nodes_logs set_t2_elevation_logs plot_centerlines_logs
          append_t2_channel_logs migrate_t2_logs plot_all_centerlines_logs bounding_box_logs
          facies_volume_pre_logs facies_volume_post_logs block_diagram_pre_logs
          block_diagram_post_logs cookie_coords_logs random_cookie_logs)
  from run_cells_logs[OF this] assms have "trace s' = trace s @ concat ?evss"
    by (simp add: notebook_def)
  also have "concat ?evss = t1_pass_calls @ t2_pass_calls @ visualization_calls"
    by (simp add: t1_pass_calls_def t2_pass_calls_def visualization_calls_def)
  finally show ?thesis .
qed

subsection \<open>A complete run of the sample session\<close>

lemmas cell_defs =
  load_t1_centerline_def build_channel_belt_def migrate_t1_def export_t1_def
  model_domain_def build_3d_def build_3d_pre_def load_t2_centerline_def plot_t2_nodes_def
  set_t2_elevation_def plot_centerlines_def append_t2_channel_def migrate_t2_def export_t2_def
  plot_all_centerlines_def bounding_box_def build_3d_post_def facies_volume_def
  facies_volume_pre_def facies_volume_post_def block_diagram_def block_diagram_pre_def
  block_diagram_post_def cookie_t1_coords_def cookie_t2_coords_def cookie_upstream_coords_def
  random_cookie_def

lemmas demo_defs =
  demo_session_def demo_libs_def demo_line_def demo_migrate_def demo_volume_def
  demo_build_3d_def build_3d_model_kwargs_def
  centerline_dir_def py_index_def np_ones_like_def np_flip_def np_min_def np_max_def
  py_min_def py_max_def np_ones_def np_zeros3_def set_layer_def Channel_args_def N_def

lemma fold_least_same: "((\<lambda>m. if fl_lt v m then v else m) ^^ k) v = v"
  by (induction k) (simp_all add: fl_lt_irrefl)

lemma fold_greatest_same: "((\<lambda>m. if fl_lt m v then v else m) ^^ k) v = v"
  by (induction k) (simp_all add: fl_lt_irrefl)

lemma a_lt_numpy: "a_lt (numpy_float64 rnd) = fl_lt"
  by (simp add: numpy_float64_def)

lemma np_min_fl_replicate: "0 < n \<Longrightarrow> np_min_fl (replicate n v) = Inr v"
  by (cases n) (auto simp: np_min_fl_def fold_least_same)

lemma np_max_fl_replicate: "0 < n \<Longrightarrow> np_max_fl (replicate n v) = Inr v"
  by (cases n) (auto simp: np_max_fl_def fold_greatest_same)

lemma bounding_loop_append:
  "bounding_loop (xs @ ys) box =
     (case bounding_loop xs box of Inl e \<Rightarrow> Inl e | Inr box' \<Rightarrow> bounding_loop ys box')"
proof (induction xs arbitrary: box)
  case Nil
  show ?case by simp
next
  case (Cons c xs)
  obtain a b p q where box: "box = (a, b, p, q)" by (cases box) auto
  show ?case unfolding box by (simp add: Cons split: sum.splits)
qed

lemma bounding_loop_replicate:
  assumes "ch_x c \<noteq> []" "ch_y c \<noteq> []"
  shows "bounding_loop (replicate n c) (a, b, p, q) =
           Inr (if n = 0 then (a, b, p, q)
                else (min a (Min (set (ch_x c))), max b (Max (set (ch_x c))),
                      min p (Min (set (ch_y c))), max q (Max (set (ch_y c)))))"
proof (induction n arbitrary: a b p q)
  case 0
  show ?case by simp
next
  case (Suc n)
  show ?case using assms by (simp add: Suc py_min_def py_max_def)
qed

lemmas demo_simps =
  notebook_def cells_def cell_defs stmt_defs demo_defs path_defs generate_z_numpy
  bounding_loop_append bounding_loop_replicate ramp_entry_def ramp_divisor_def
  a_lt_numpy py_max2_def py_min2_def np_min_fl_replicate np_max_fl_replicate
  nth_append nth_Cons'

lemma demo_run:
  "\<exists>s'. notebook demo_libs demo_session = Inr s'
     \<and> trace s' = t1_pass_calls @ t2_pass_calls @ visualization_calls
     \<and> files s' t1_output = Some [demo_line]
     \<and> files s' t2_output = Some [demo_line]
     \<and> ch_z (last (channels (v_chb s')))
         = replicate 225 (Fin 5) @ [Fin 5, Fin (9 / 2), Fin 4, Fin (7 / 2), Fin 3]
     \<and> v_bottom s' = - 2"
  by (simp add: demo_simps t1_pass_calls_def t2_pass_calls_def visualization_calls_def)


subsection \<open>The order of the stages\<close>

text \<open>
  Claim C2, as it holds: a complete run makes the library calls of the T1 pass, then those
  of the T2 pass, then those of the visualization. Each pass goes through load, resample and
  smooth, construct, migrate, export and build of the 3-D volume in this order (the T2 pass
  with matplotlib figures and the belt's plot in between), and the mayavi and stratigraph
  visualization follows both 3-D builds. Every cell starts from the state that the cells
  before it have left, so an output feeds later cells only.
\<close>

theorem pipeline_order:
  assumes "notebook L s = Inr s'"
  shows "trace s' = trace s @ t1_pass_calls @ t2_pass_calls @ visualization_calls
       \<and> map stage_of t1_pass_calls =
           [Load, Resample_smooth, Resample_smooth, Resample_smooth, Construct, Construct,
            Migrate, Export, Export, Export, Build_3d]
       \<and> map stage_of t2_pass_calls =
           [Load, Resample_smooth, Resample_smooth, Resample_smooth, Visualize, Visualize,
            Construct, Migrate, Visualize, Export, Export, Export, Visualize, Build_3d]
       \<and> sorted (map (stage_rank \<circ> stage_of) t1_pass_calls)
       \<and> sorted (map (stage_rank \<circ> stage_of)
                   (filter (\<lambda>c. stage_of c \<noteq> Visualize) t2_pass_calls))
       \<and> list_all (\<lambda>c. stage_of c = Visualize) visualization_calls
       \<and> (\<forall>k. \<exists>s1. run_cells (take k (cells L)) s = Inr s1
                    \<and> run_cells (drop k (cells L)) s1 = Inr s')"
proof -
  have "\<forall>k. \<exists>s1. run_cells (take k (cells L)) s = Inr s1
                 \<and> run_cells (drop k (cells L)) s1 = Inr s'"
    using assms run_cells_split unfolding notebook_def by blast
  with notebook_trace[OF assms] show ?thesis
    by (simp add: t1_pass_calls_def t2_pass_calls_def visualization_calls_def)
qed

theorem pipeline_order_witness:
  "\<exists>s'. notebook demo_libs demo_session = Inr s'
     \<and> trace s' = trace demo_session @ t1_pass_calls @ t2_pass_calls @ visualization_calls
     \<and> (\<exists>s1. run_cells (take 6 (cells demo_libs)) demo_session = Inr s1
            \<and> run_cells (drop 6 (cells demo_libs)) s1 = Inr s')"
proof -
  from demo_run obtain s' where run: "notebook demo_libs demo_session = Inr s'"
    by blast
  from pipeline_order[OF run] run show ?thesis by blast
qed

text \<open>
  Claim C2 as stated has one linear order for the whole program. In a run of the sample
  session the twelfth call loads the T2 shapefile, after the eleventh has built the T1
  volume, so the stages of the calls are not in the order of the claim.
\<close>

theorem pipeline_order_counterexample:
  "\<exists>s'. notebook demo_libs demo_session = Inr s'
     \<and> stage_of (trace s' ! 10) = Build_3d
     \<and> stage_of (trace s' ! 11) = Load
     \<and> \<not> sorted (map (stage_rank \<circ> stage_of) (trace s'))"
proof -
  from demo_run obtain s' where run: "notebook demo_libs demo_session = Inr s'"
    and tr: "trace s' = t1_pass_calls @ t2_pass_calls @ visualization_calls"
    by blast
  have "stage_of (trace s' ! 10) = Build_3d" "stage_of (trace s' ! 11) = Load"
    "\<not> sorted (map (stage_rank \<circ> stage_of) (trace s'))"
    unfolding tr
    by (simp_all add: t1_pass_calls_def t2_pass_calls_def visualization_calls_def)
  with run show ?thesis by blast
qed

subsection \<open>The exported shapefiles\<close>










subsection \<open>Exceptions\<close>







































subsection \<open>The input files\<close>

lemma same_sessionE:
  assumes "same_session a b"
  obtains fb where "b = a\<lparr>files := fb\<rparr>" and "same_inputs (files a) fb"
proof -
  from assms have i: "same_inputs (files a) (files b)" and e: "b\<lparr>files := files a\<rparr> = a"
    by (simp_all add: same_session_def)
  have "b = (b\<lparr>files := files a\<rparr>)\<lparr>files := files b\<rparr>" by simp
  then have "b = a\<lparr>files := files b\<rparr>" by (simp only: e)
  with i that show thesis by blast
qed

lemma same_sessionI: "same_inputs (files a) fb \<Longrightarrow> same_session a (a\<lparr>files := fb\<rparr>)"
  by (simp add: same_session_def)

lemma blind_andthen:
  assumes "files_blind m" and "\<And>v. files_blind (f v)"
  shows "files_blind (andthen m f)"
  unfolding files_blind_def
proof (intro allI impI)
  fix a b assume ab: "same_session a b"
  with assms(1) have m: "same_outcome (m a) (m b)" by (simp add: files_blind_def)
  show "same_outcome (andthen m f a) (andthen m f b)"
  proof (cases "m a")
    case (Inl e)
    with m show ?thesis by (auto simp: same_outcome_def andthen_def split: sum.splits)
  next
    case (Inr r)
    obtain v a' where r: "r = (v, a')" by (cases r)
    from m Inr r obtain b' where mb: "m b = Inr (v, b')" and s: "same_session a' b'"
      by (auto simp: same_outcome_def split: sum.splits)
    from assms(2)[of v] s have "same_outcome (f v a') (f v b')" by (simp add: files_blind_def)
    with Inr r mb show ?thesis by (simp add: andthen_def)
  qed
qed

lemma blind_lift: "files_blind (lift r)"
  by (auto simp: files_blind_def lift_def same_outcome_def split: sum.splits)

lemma blind_call: "files_blind (call c r)"
  unfolding files_blind_def
proof (intro allI impI)
  fix a b assume "same_session a b"
  then obtain fb where b: "b = a\<lparr>files := fb\<rparr>" and i: "same_inputs (files a) fb"
    by (rule same_sessionE)
  show "same_outcome (call c r a) (call c r b)"
    using i by (cases r) (simp_all add: b call_def same_outcome_def same_session_def)
qed

lemma blind_gets:
  assumes "\<And>a fb. f (a\<lparr>files := fb\<rparr>) = f a"
  shows "files_blind (gets f)"
  by (auto simp: files_blind_def gets_def same_outcome_def assms elim!: same_sessionE
           intro: same_sessionI)

lemma blind_modify:
  assumes "\<And>a fb. g (a\<lparr>files := fb\<rparr>) = (g a)\<lparr>files := fb\<rparr>"
  shows "files_blind (modify g)"
  unfolding files_blind_def
proof (intro allI impI)
  fix a b assume "same_session a b"
  then obtain fb where b: "b = a\<lparr>files := fb\<rparr>" and i: "same_inputs (files a) fb"
    by (rule same_sessionE)
  have "g a = g (a\<lparr>files := files a\<rparr>)" by simp
  also have "\<dots> = (g a)\<lparr>files := files a\<rparr>" by (rule assms)
  finally have "files (g a) = files a"
    by (metis nb.select_convs(1) nb.surjective nb.update_convs(1))
  with i have "same_session (g a) ((g a)\<lparr>files := fb\<rparr>)" by (simp add: same_session_def)
  then show "same_outcome (modify g a) (modify g b)"
    by (simp add: b assms modify_def same_outcome_def)
qed

lemma blind_case_prod:
  assumes "\<And>x y. files_blind (f x y)"
  shows "files_blind (case_prod f p)"
  by (cases p) (simp add: assms)

lemma blind_to_file:
  assumes "p \<noteq> t1_input" "p \<noteq> t2_input"
  shows "files_blind (gdf_to_file L gdf p)"
  unfolding files_blind_def
proof (intro allI impI)
  fix a b assume "same_session a b"
  then obtain fb where b: "b = a\<lparr>files := fb\<rparr>" and i: "same_inputs (files a) fb"
    by (rule same_sessionE)
  show "same_outcome (gdf_to_file L gdf p a) (gdf_to_file L gdf p b)"
    using i assms
    by (simp add: b gdf_to_file_def same_outcome_def same_session_def same_inputs_def
          split: option.splits)
qed

lemma first_of_take:
  "take 1 xs = take 1 ys \<Longrightarrow> py_index xs 0 = py_index ys 0"
  by (cases xs; cases ys) (auto simp: py_index_def)

lemma blind_read_first:
  assumes "p = t1_input \<or> p = t2_input" and "\<And>line. files_blind (K line)"
  shows "files_blind (andthen (gpd_read_file L p) (\<lambda>shp. andthen (lift (py_index shp 0)) K))"
  unfolding files_blind_def
proof (intro allI impI)
  fix a b assume "same_session a b"
  then obtain fb where b: "b = a\<lparr>files := fb\<rparr>" and i: "same_inputs (files a) fb"
    by (rule same_sessionE)
  from i assms(1) have t: "map_option (take 1) (files a p) = map_option (take 1) (fb p)"
    by (auto simp: same_inputs_def)
  let ?m = "andthen (gpd_read_file L p) (\<lambda>shp. andthen (lift (py_index shp 0)) K)"
  show "same_outcome (?m a) (?m b)"
  proof (cases "files a p")
    case None
    with t have "fb p = None" by simp
    with None show ?thesis
      by (simp add: b andthen_def gpd_read_file_def same_outcome_def)
  next
    case (Some ga)
    with t obtain gb where gb: "fb p = Some gb" and tk: "take 1 ga = take 1 gb"
      by (cases "fb p") auto
    from tk have ix: "py_index ga 0 = py_index gb 0" by (rule first_of_take)
    show ?thesis
    proof (cases "py_index gb 0")
      case (Inl e)
      with Some gb ix show ?thesis
        by (simp add: b andthen_def gpd_read_file_def lift_def same_outcome_def)
    next
      case (Inr line)
      let ?a' = "a\<lparr>trace := trace a @ [Gpd_read_file p]\<rparr>"
      have "same_session ?a' (?a'\<lparr>files := fb\<rparr>)"
        using i by (intro same_sessionI) simp
      with assms(2)[of line] have "same_outcome (K line ?a') (K line (?a'\<lparr>files := fb\<rparr>))"
        by (simp add: files_blind_def)
      moreover have "?a'\<lparr>files := fb\<rparr> = a\<lparr>files := fb, trace := trace a @ [Gpd_read_file p]\<rparr>"
        by simp
      ultimately show ?thesis
        using Some gb ix Inr
        by (simp add: b andthen_def gpd_read_file_def lift_def)
    qed
  qed
qed

lemmas blind_intros =
  blind_andthen blind_lift blind_call blind_gets blind_modify blind_case_prod

lemma load_t1_centerline_blind: "files_blind (load_t1_centerline L)"
  unfolding load_t1_centerline_def Let_def path_defs[symmetric]
  by (rule blind_read_first) (auto intro!: blind_intros)

lemma load_t2_centerline_blind: "files_blind (load_t2_centerline L)"
  unfolding load_t2_centerline_def Let_def path_defs[symmetric]
  by (rule blind_read_first) (auto intro!: blind_intros)

lemma export_t1_blind: "files_blind (export_t1 L)"
  unfolding export_t1_def Let_def
  by (auto intro!: blind_intros blind_to_file simp: path_defs)

lemma export_t2_blind: "files_blind (export_t2 L)"
  unfolding export_t2_def Let_def
  by (auto intro!: blind_intros blind_to_file simp: path_defs)

lemma build_3d_blind: "files_blind (build_3d L)"
  unfolding build_3d_def Let_def by (auto intro!: blind_intros)

lemma block_diagram_blind: "files_blind (block_diagram L m)"
  unfolding block_diagram_def Let_def by (auto intro!: blind_intros)

lemma other_cells_blind:
  "files_blind build_channel_belt"
  "files_blind (migrate_t1 L)"
  "files_blind model_domain"
  "files_blind (build_3d_pre L)"
  "files_blind (plot_t2_nodes L)"
  "files_blind (set_t2_elevation L)"
  "files_blind (plot_centerlines L)"
  "files_blind append_t2_channel"
  "files_blind (migrate_t2 L)"
  "files_blind (plot_all_centerlines L)"
  "files_blind bounding_box"
  "files_blind (build_3d_post L)"
  "files_blind facies_volume_pre"
  "files_blind (block_diagram_pre L)"
  "files_blind facies_volume_post"
  "files_blind (block_diagram_post L)"
  "files_blind cookie_t1_coords"
  "files_blind (random_cookie L)"
  "files_blind cookie_t2_coords"
  "files_blind cookie_upstream_coords"
  unfolding build_channel_belt_def migrate_t1_def model_domain_def build_3d_pre_def
    plot_t2_nodes_def set_t2_elevation_def plot_centerlines_def append_t2_channel_def
    migrate_t2_def plot_all_centerlines_def bounding_box_def build_3d_post_def
    facies_volume_pre_def block_diagram_pre_def facies_volume_post_def block_diagram_post_def
    cookie_t1_coords_def random_cookie_def cookie_t2_coords_def cookie_upstream_coords_def
    Let_def
  by (auto intro!: blind_intros build_3d_blind block_diagram_blind)

lemma run_cells_blind:
  assumes "\<forall>c \<in> set cs. files_blind c" and "same_session a b"
  shows "same_result (run_cells cs a) (run_cells cs b)"
  using assms
proof (induction cs arbitrary: a b)
  case Nil
  then show ?case by (simp add: same_result_def)
next
  case (Cons c cs)
  from Cons.prems have o: "same_outcome (c a) (c b)" by (simp add: files_blind_def)
  show ?case
  proof (cases "c a")
    case (Inl e)
    with o show ?thesis
      by (auto simp: same_outcome_def same_result_def split: sum.splits)
  next
    case (Inr r)
    obtain u a' where r: "r = (u, a')" by (cases r)
    from o Inr r obtain b' where cb: "c b = Inr (u, b')" and s: "same_session a' b'"
      by (auto simp: same_outcome_def split: sum.splits)
    from Cons.IH[OF _ s] Cons.prems(1)
    have "same_result (run_cells cs a') (run_cells cs b')" by simp
    with Inr r cb show ?thesis by simp
  qed
qed

lemma notebook_blind:
  assumes "same_inputs (files s) fs"
  shows "same_result (notebook L s) (notebook L (s\<lparr>files := fs\<rparr>))"
  unfolding notebook_def
proof (rule run_cells_blind)
  show "\<forall>c \<in> set (cells L). files_blind c"
    by (simp add: cells_def load_t1_centerline_blind load_t2_centerline_blind export_t1_blind
          export_t2_blind other_cells_blind)
  show "same_session s (s\<lparr>files := fs\<rparr>)" using assms by (rule same_sessionI)
qed

subsection \<open>What is read of the input files\<close>

lemma load_t1_centerline_reads:
  assumes "load_t1_centerline L s = Inr (u, s')"
  shows "\<exists>g gs x y x' y' z'.
           files s t1_input = Some (g # gs) \<and> xy g = Inr (x, y)
         \<and> mp_resample_centerline L
              [PyArray x, PyArray y, PyFloats (np_ones_like x), PyFloat 5] []
              = Inr (x', y', z')
         \<and> sp_savgol_filter L
              [PyArray (map (\<lambda>v. v - 560000) (np_flip x')), PyInt 11, PyInt 2] []
              = Inr (v_x s')
         \<and> sp_savgol_filter L
              [PyArray (map (\<lambda>v. v - 4300000) (np_flip y')), PyInt 11, PyInt 2] []
              = Inr (v_y s')
         \<and> v_z s' = z'"
proof -
  have first: "py_index gdf 0 = Inr g \<Longrightarrow> \<exists>gs. gdf = g # gs" for gdf :: geodataframe and g
    by (cases gdf) (auto simp: py_index_def split: if_splits)
  show ?thesis
    using assms
    by (auto simp: load_t1_centerline_def stmt_defs path_defs
             split: sum.splits option.splits prod.splits dest!: first)
qed

lemma load_t2_centerline_reads:
  assumes "load_t2_centerline L s = Inr (u, s')"
  shows "\<exists>g gs x y x' y' z'.
           files s t2_input = Some (g # gs) \<and> xy g = Inr (x, y)
         \<and> mp_resample_centerline L
              [PyArray x, PyArray y, PyFloats (np_ones_like x), PyFloat 5] []
              = Inr (x', y', z')
         \<and> sp_savgol_filter L [PyArray (map (\<lambda>v. v - 560000) x'), PyInt 31, PyInt 2] []
              = Inr (v_x s')
         \<and> sp_savgol_filter L [PyArray (map (\<lambda>v. v - 4300000) y'), PyInt 31, PyInt 2] []
              = Inr (v_y s')
         \<and> v_z s' = z'"
proof -
  have first: "py_index gdf 0 = Inr g \<Longrightarrow> \<exists>gs. gdf = g # gs" for gdf :: geodataframe and g
    by (cases gdf) (auto simp: py_index_def split: if_splits)
  show ?thesis
    using assms
    by (auto simp: load_t2_centerline_def stmt_defs path_defs
             split: sum.splits option.splits prod.splits dest!: first)
qed

text \<open>The cells before the second read leave the T2 input file as it is.\<close>

lemma t1_pass_keeps_t2_input:
  assumes "run_cells (take 6 (cells L)) s = Inr s6"
  shows "files s6 t2_input = files s t2_input"
proof -
  have k1: "load_t1_centerline L a = Inr (u, b) \<Longrightarrow> files b = files a" for a b u
    by (auto simp: load_t1_centerline_def stmt_defs
             split: sum.splits option.splits prod.splits)
  have k2: "build_channel_belt a = Inr (u, b) \<Longrightarrow> files b = files a" for a b u
    by (auto simp: build_channel_belt_def stmt_defs split: sum.splits)
  have k3: "migrate_t1 L a = Inr (u, b) \<Longrightarrow> files b = files a" for a b u
    by (auto simp: migrate_t1_def stmt_defs split: sum.splits)
  have k4: "export_t1 L a = Inr (u, b) \<Longrightarrow> files b t2_input = files a t2_input" for a b u
    by (auto simp: export_t1_def stmt_defs path_defs split: sum.splits option.splits)
  have k5: "model_domain a = Inr (u, b) \<Longrightarrow> files b = files a" for a b u
    by (auto simp: model_domain_def stmt_defs)
  have k6: "build_3d_pre L a = Inr (u, b) \<Longrightarrow> files b = files a" for a b u
    by (auto simp: build_3d_pre_def build_3d_def stmt_defs split: sum.splits)
  from assms obtain a1 a2 a3 a4 a5 where
    "load_t1_centerline L s = Inr ((), a1)" "build_channel_belt a1 = Inr ((), a2)"
    "migrate_t1 L a2 = Inr ((), a3)" "export_t1 L a3 = Inr ((), a4)"
    "model_domain a4 = Inr ((), a5)" "build_3d_pre L a5 = Inr ((), s6)"
    by (auto simp: cells_def split: sum.splits)
  then show ?thesis
    using k1 k2 k3 k4 k5 k6 by metis
qed

lemma notebook_reads:
  assumes "notebook L s = Inr s'"
  shows "\<exists>g1 gs1 x1 y1 r1 g2 gs2 x2 y2 r2.
           files s t1_input = Some (g1 # gs1) \<and> xy g1 = Inr (x1, y1)
         \<and> mp_resample_centerline L
              [PyArray x1, PyArray y1, PyFloats (np_ones_like x1), PyFloat 5] [] = Inr r1
         \<and> files s t2_input = Some (g2 # gs2) \<and> xy g2 = Inr (x2, y2)
         \<and> mp_resample_centerline L
              [PyArray x2, PyArray y2, PyFloats (np_ones_like x2), PyFloat 5] [] = Inr r2"
proof -
  from assms have run: "run_cells (cells L) s = Inr s'" by (simp add: notebook_def)
  from run_cells_split[OF run, of 6] obtain s6 where
    r6: "run_cells (take 6 (cells L)) s = Inr s6"
    and d6: "run_cells (drop 6 (cells L)) s6 = Inr s'" by blast
  from d6 obtain s7 where l2: "load_t2_centerline L s6 = Inr ((), s7)"
    by (auto simp: cells_def split: sum.splits)
  from r6 obtain s1 where l1: "load_t1_centerline L s = Inr ((), s1)"
    by (auto simp: cells_def split: sum.splits)
  from load_t1_centerline_reads[OF l1] obtain g1 gs1 x1 y1 r1 where
    a: "files s t1_input = Some (g1 # gs1)" "xy g1 = Inr (x1, y1)"
       "mp_resample_centerline L
          [PyArray x1, PyArray y1, PyFloats (np_ones_like x1), PyFloat 5] [] = Inr r1"
    by blast
  from load_t2_centerline_reads[OF l2] obtain g2 gs2 x2 y2 r2 where
    b: "files s6 t2_input = Some (g2 # gs2)" "xy g2 = Inr (x2, y2)"
       "mp_resample_centerline L
          [PyArray x2, PyArray y2, PyFloats (np_ones_like x2), PyFloat 5] [] = Inr r2"
    by blast
  from b(1) t1_pass_keeps_t2_input[OF r6] have "files s t2_input = Some (g2 # gs2)" by simp
  with a b(2,3) show ?thesis by blast
qed

text \<open>
  Claim C6: a complete run reads exactly two files, \<open>t1_initial_centerline.shp\<close> and
  \<open>t2_initial_centerline.shp\<close> under \<open>../modeling/centerlines/\<close>, in this order. Each
  must exist and hold a first geometry with coordinates; the x and y coordinates of that
  geometry (all the coordinate pairs of a \<open>LineString\<close>) are what
  \<open>mp.resample_centerline\<close> is called with, and what it returns becomes, translated (and
  flipped for T1) and smoothed, the centerline of the pass. The outcome depends on the
  files only through the first geometry of each of the two: in a session whose files hold
  the same first geometries at these two paths and differ in any other way, the run
  raises the same exception, or completes with the same calls, printed lines and globals.
\<close>

theorem file_inputs:
  "(notebook L s = Inr s' \<longrightarrow>
      filter is_read (drop (length (trace s)) (trace s'))
        = [Gpd_read_file ''../modeling/centerlines/t1_initial_centerline.shp'',
           Gpd_read_file ''../modeling/centerlines/t2_initial_centerline.shp''])
   \<and> (map_option (take 1) (files s t1_input) = map_option (take 1) (fs t1_input)
      \<and> map_option (take 1) (files s t2_input) = map_option (take 1) (fs t2_input) \<longrightarrow>
      (case (notebook L s, notebook L (s\<lparr>files := fs\<rparr>)) of
         (Inl e, Inl e') \<Rightarrow> e = e'
       | (Inr a, Inr b) \<Rightarrow> b\<lparr>files := files a\<rparr> = a
       | _ \<Rightarrow> False))
   \<and> t1_input = ''../modeling/centerlines/t1_initial_centerline.shp''
   \<and> t2_input = ''../modeling/centerlines/t2_initial_centerline.shp''
   \<and> (notebook L s = Inr s' \<longrightarrow>
        (\<exists>g1 gs1 x1 y1 r1 g2 gs2 x2 y2 r2.
           files s t1_input = Some (g1 # gs1) \<and> xy g1 = Inr (x1, y1)
         \<and> mp_resample_centerline L
              [PyArray x1, PyArray y1, PyFloats (np_ones_like x1), PyFloat 5] [] = Inr r1
         \<and> files s t2_input = Some (g2 # gs2) \<and> xy g2 = Inr (x2, y2)
         \<and> mp_resample_centerline L
              [PyArray x2, PyArray y2, PyFloats (np_ones_like x2), PyFloat 5] [] = Inr r2))
   \<and> (load_t1_centerline L s = Inr (u, s') \<longrightarrow>
        (\<exists>g gs x y x' y' z'.
           files s t1_input = Some (g # gs) \<and> xy g = Inr (x, y)
         \<and> mp_resample_centerline L
              [PyArray x, PyArray y, PyFloats (np_ones_like x), PyFloat 5] []
              = Inr (x', y', z')
         \<and> sp_savgol_filter L
              [PyArray (map (\<lambda>v. v - 560000) (np_flip x')), PyInt 11, PyInt 2] []
              = Inr (v_x s')
         \<and> sp_savgol_filter L
              [PyArray (map (\<lambda>v. v - 4300000) (np_flip y')), PyInt 11, PyInt 2] []
              = Inr (v_y s')
         \<and> v_z s' = z'))
   \<and> (load_t2_centerline L s = Inr (u, s') \<longrightarrow>
        (\<exists>g gs x y x' y' z'.
           files s t2_input = Some (g # gs) \<and> xy g = Inr (x, y)
         \<and> mp_resample_centerline L
              [PyArray x, PyArray y, PyFloats (np_ones_like x), PyFloat 5] []
              = Inr (x', y', z')
         \<and> sp_savgol_filter L [PyArray (map (\<lambda>v. v - 560000) x'), PyInt 31, PyInt 2] []
              = Inr (v_x s')
         \<and> sp_savgol_filter L [PyArray (map (\<lambda>v. v - 4300000) y'), PyInt 31, PyInt 2] []
              = Inr (v_y s')
         \<and> v_z s' = z'))
   \<and> xy (LineString pts) = Inr (map fst pts, map snd pts)
   \<and> xy (Point (p, q)) = Inr ([p], [q])
   \<and> xy OtherGeometry = Inl NotImplementedError"
proof (intro conjI impI)
  assume "notebook L s = Inr s'"
  from notebook_trace[OF this]
  show "filter is_read (drop (length (trace s)) (trace s'))
        = [Gpd_read_file ''../modeling/centerlines/t1_initial_centerline.shp'',
           Gpd_read_file ''../modeling/centerlines/t2_initial_centerline.shp'']"
    by (simp add: t1_pass_calls_def t2_pass_calls_def visualization_calls_def path_defs
          centerline_dir_def)
next
  assume "map_option (take 1) (files s t1_input) = map_option (take 1) (fs t1_input)
      \<and> map_option (take 1) (files s t2_input) = map_option (take 1) (fs t2_input)"
  then have "same_inputs (files s) fs" by (simp add: same_inputs_def)
  from notebook_blind[OF this, of L]
  show "case (notebook L s, notebook L (s\<lparr>files := fs\<rparr>)) of
         (Inl e, Inl e') \<Rightarrow> e = e'
       | (Inr a, Inr b) \<Rightarrow> b\<lparr>files := files a\<rparr> = a
       | _ \<Rightarrow> False"
    by (auto simp: same_result_def same_session_def split: sum.splits)
next
  show "t1_input = ''../modeling/centerlines/t1_initial_centerline.shp''"
    by (simp add: path_defs centerline_dir_def)
  show "t2_input = ''../modeling/centerlines/t2_initial_centerline.shp''"
    by (simp add: path_defs centerline_dir_def)
next
  assume "notebook L s = Inr s'"
  then show "\<exists>g1 gs1 x1 y1 r1 g2 gs2 x2 y2 r2.
           files s t1_input = Some (g1 # gs1) \<and> xy g1 = Inr (x1, y1)
         \<and> mp_resample_centerline L
              [PyArray x1, PyArray y1, PyFloats (np_ones_like x1), PyFloat 5] [] = Inr r1
         \<and> files s t2_input = Some (g2 # gs2) \<and> xy g2 = Inr (x2, y2)
         \<and> mp_resample_centerline L
              [PyArray x2, PyArray y2, PyFloats (np_ones_like x2), PyFloat 5] [] = Inr r2"
    by (rule notebook_reads)
next
  assume "load_t1_centerline L s = Inr (u, s')"
  then show "\<exists>g gs x y x' y' z'.
           files s t1_input = Some (g # gs) \<and> xy g = Inr (x, y)
         \<and> mp_resample_centerline L
              [PyArray x, PyArray y, PyFloats (np_ones_like x), PyFloat 5] []
              = Inr (x', y', z')
         \<and> sp_savgol_filter L
              [PyArray (map (\<lambda>v. v - 560000) (np_flip x')), PyInt 11, PyInt 2] []
              = Inr (v_x s')
         \<and> sp_savgol_filter L
              [PyArray (map (\<lambda>v. v - 4300000) (np_flip y')), PyInt 11, PyInt 2] []
              = Inr (v_y s')
         \<and> v_z s' = z'"
    by (rule load_t1_centerline_reads)
next
  assume "load_t2_centerline L s = Inr (u, s')"
  then show "\<exists>g gs x y x' y' z'.
           files s t2_input = Some (g # gs) \<and> xy g = Inr (x, y)
         \<and> mp_resample_centerline L
              [PyArray x, PyArray y, PyFloats (np_ones_like x), PyFloat 5] []
              = Inr (x', y', z')
         \<and> sp_savgol_filter L [PyArray (map (\<lambda>v. v - 560000) x'), PyInt 31, PyInt 2] []
              = Inr (v_x s')
         \<and> sp_savgol_filter L [PyArray (map (\<lambda>v. v - 4300000) y'), PyInt 31, PyInt 2] []
              = Inr (v_y s')
         \<and> v_z s' = z'"
    by (rule load_t2_centerline_reads)
qed simp_all

theorem file_inputs_witness:
  "(\<exists>s'. notebook demo_libs demo_session = Inr s'
       \<and> filter is_read (trace s')
           = [Gpd_read_file ''../modeling/centerlines/t1_initial_centerline.shp'',
              Gpd_read_file ''../modeling/centerlines/t2_initial_centerline.shp''])
   \<and> map_option (take 1) (files demo_session t1_input)
       = map_option (take 1)
           ([t1_input \<mapsto> [demo_line, demo_line], t2_input \<mapsto> [demo_line],
             ''notes.txt'' \<mapsto> []] t1_input)
   \<and> (\<exists>a b. notebook demo_libs demo_session = Inr a
       \<and> notebook demo_libs
           (demo_session\<lparr>files := [t1_input \<mapsto> [demo_line, demo_line],
                                    t2_input \<mapsto> [demo_line], ''notes.txt'' \<mapsto> []]\<rparr>) = Inr b
       \<and> b\<lparr>files := files a\<rparr> = a)
   \<and> (\<exists>g1 gs1 g2 gs2. files demo_session t1_input = Some (g1 # gs1)
       \<and> xy g1 = Inr (replicate 230 560100, replicate 230 4300200)
       \<and> files demo_session t2_input = Some (g2 # gs2)
       \<and> xy g2 = Inr (replicate 230 560100, replicate 230 4300200))
   \<and> (\<exists>s1. load_t1_centerline demo_libs
              (demo_session\<lparr>files :=
                 [t1_input \<mapsto> [LineString [(560001, 4300003), (560002, 4300004)],
                                  demo_line]]\<rparr>) = Inr ((), s1)
       \<and> v_x s1 = [2, 1] \<and> v_y s1 = [4, 3])
   \<and> (\<exists>s2. load_t2_centerline demo_libs
              (demo_session\<lparr>files :=
                 [t2_input \<mapsto> [LineString [(560001, 4300003), (560002, 4300004)],
                                  demo_line]]\<rparr>) = Inr ((), s2)
       \<and> v_x s2 = [1, 2] \<and> v_y s2 = [3, 4])"
proof -
  let ?fs = "[t1_input \<mapsto> [demo_line, demo_line], t2_input \<mapsto> [demo_line],
              ''notes.txt'' \<mapsto> []]"
  let ?pts = "[(560001, 4300003), (560002, 4300004)] :: (real \<times> real) list"
  let ?S1 = "demo_session\<lparr>files := [t1_input \<mapsto> [LineString ?pts, demo_line]]\<rparr>"
  let ?S2 = "demo_session\<lparr>files := [t2_input \<mapsto> [LineString ?pts, demo_line]]\<rparr>"
  from demo_run obtain a where run: "notebook demo_libs demo_session = Inr a" by blast
  have t0: "trace demo_session = []" by (simp add: demo_session_def)
  have reads: "filter is_read (trace a)
           = [Gpd_read_file ''../modeling/centerlines/t1_initial_centerline.shp'',
              Gpd_read_file ''../modeling/centerlines/t2_initial_centerline.shp'']"
    using file_inputs[where L = demo_libs and s = demo_session and s' = a,
            THEN conjunct1, rule_format, OF run]
    by (simp add: t0)
  have same: "map_option (take 1) (files demo_session t1_input)
                = map_option (take 1) (?fs t1_input)
            \<and> map_option (take 1) (files demo_session t2_input)
                = map_option (take 1) (?fs t2_input)"
    by (simp add: demo_session_def path_defs)
  have "case (notebook demo_libs demo_session,
              notebook demo_libs (demo_session\<lparr>files := ?fs\<rparr>)) of
          (Inl e, Inl e') \<Rightarrow> e = e'
        | (Inr a, Inr b) \<Rightarrow> b\<lparr>files := files a\<rparr> = a
        | _ \<Rightarrow> False"
    by (rule file_inputs[where L = demo_libs and s = demo_session and fs = ?fs,
               THEN conjunct2, THEN conjunct1, rule_format, OF same])
  then obtain b where nb: "notebook demo_libs (demo_session\<lparr>files := ?fs\<rparr>) = Inr b"
    and eq: "b\<lparr>files := files a\<rparr> = a"
    unfolding run by (auto split: sum.splits)
  from file_inputs[where L = demo_libs and s = demo_session and s' = a,
         THEN conjunct2, THEN conjunct2, THEN conjunct2, THEN conjunct2, THEN conjunct1,
         rule_format, OF run]
  obtain g1 gs1 x1 y1 g2 gs2 x2 y2 where
    u: "files demo_session t1_input = Some (g1 # gs1)" "xy g1 = Inr (x1, y1)"
       "files demo_session t2_input = Some (g2 # gs2)" "xy g2 = Inr (x2, y2)"
    by blast
  from u have used: "xy g1 = Inr (replicate 230 560100, replicate 230 4300200)"
    "xy g2 = Inr (replicate 230 560100, replicate 230 4300200)"
    by (auto simp: demo_session_def demo_line_def path_defs)
  obtain s1 where l1: "load_t1_centerline demo_libs ?S1 = Inr ((), s1)"
    by (simp add: load_t1_centerline_def stmt_defs demo_defs path_defs)
  obtain s2 where l2: "load_t2_centerline demo_libs ?S2 = Inr ((), s2)"
    by (simp add: load_t2_centerline_def stmt_defs demo_defs path_defs)
  from file_inputs[where L = demo_libs and s = ?S1 and u = "()" and s' = s1,
         THEN conjunct2, THEN conjunct2, THEN conjunct2, THEN conjunct2, THEN conjunct2,
         THEN conjunct1, rule_format, OF l1]
  have v1: "v_x s1 = [2, 1] \<and> v_y s1 = [4, 3]"
    by (auto simp: path_defs demo_libs_def np_flip_def)
  from file_inputs[where L = demo_libs and s = ?S2 and u = "()" and s' = s2,
         THEN conjunct2, THEN conjunct2, THEN conjunct2, THEN conjunct2, THEN conjunct2,
         THEN conjunct2, THEN conjunct1, rule_format, OF l2]
  have v2: "v_x s2 = [1, 2] \<and> v_y s2 = [3, 4]"
    by (auto simp: path_defs demo_libs_def)
  from run reads same nb eq u(1,3) used l1 v1 l2 v2 show ?thesis by blast
qed

subsection \<open>What is delegated and what is computed here\<close>




























subsection \<open>How the constants are passed\<close>






end
